theory Spec2Isabelle
  imports Complex_Main "HOL-Library.Sublist"
begin

section \<open>ASMRTools download pipeline: manifest, path filter, progress, job\<close>

text \<open>
  Conventions of the embedding. A Python \<open>str\<close> is a \<open>string\<close> holding its UTF-8
  bytes; every character the code inspects (\<open>/\<close>, \<open>.\<close>, space, the characters of the
  sanitising pattern) is ASCII, so working on bytes agrees with working on code points.
  Python \<open>int\<close> is \<open>int\<close>; Python \<open>float\<close> (clock readings, percentages, rates) is
  \<open>real\<close>, that is exact arithmetic. A dictionary whose keys are fixed by the code is a
  record; an absent key or attribute is \<open>None\<close>.
\<close>

subsection \<open>Python string helpers\<close>

definition strip_chars :: "string \<Rightarrow> string \<Rightarrow> string" where
  \<comment> \<open>\<open>s.strip(cs)\<close>: drop every leading and trailing character that is in \<open>cs\<close>\<close>
  "strip_chars cs s = rev (dropWhile (\<lambda>c. c \<in> set cs) (rev (dropWhile (\<lambda>c. c \<in> set cs) s)))"

fun split_on :: "char \<Rightarrow> string \<Rightarrow> string list" where
  \<comment> \<open>\<open>s.split(c)\<close> for a one-character separator\<close>
  "split_on c [] = [[]]"
| "split_on c (x # xs) =
     (if x = c then [] # split_on c xs
      else (case split_on c xs of [] \<Rightarrow> [[x]] | w # ws \<Rightarrow> (x # w) # ws))"

fun join_with :: "string \<Rightarrow> string list \<Rightarrow> string" where
  \<comment> \<open>\<open>sep.join(parts)\<close>\<close>
  "join_with sep [] = []"
| "join_with sep [w] = w"
| "join_with sep (w # v # ws) = w @ sep @ join_with sep (v # ws)"

definition startswith :: "string \<Rightarrow> string \<Rightarrow> bool" where
  "startswith s p = (take (length p) s = p)"

subsection \<open>sync_downloader_simple.py: manifest flattening\<close>

definition illegal_chars :: "char list" where
  \<comment> \<open>the character class of \<open>re.sub(r'[<>:"/\\|?*]', '_', filename)\<close>\<close>
  "illegal_chars = [CHR ''<'', CHR ''>'', CHR '':'', CHR 0x22, CHR ''/'', CHR 0x5C,
                    CHR ''|'', CHR ''?'', CHR ''*'']"

definition sanitize_filename :: "string \<Rightarrow> string" where
  "sanitize_filename filename =
     (let filename1 = map (\<lambda>c. if c \<in> set illegal_chars then CHR ''_'' else c) filename;
          filename2 = strip_chars ''. '' filename1
      in if filename2 \<noteq> [] then filename2 else ''unnamed_file'')"

text \<open>
  One entry of the tracks tree as the API returns it. The code reads the keys with
  \<open>get\<close>: \<open>ttype\<close> is \<open>track.get("type")\<close> (anything but \<open>folder\<close> is a file),
  \<open>ttitle\<close> is \<open>None\<close> when the key is absent, and \<open>children\<close>, \<open>mediaDownloadUrl\<close>
  and \<open>size\<close> hold the value after the default (\<open>[]\<close>, the empty string, \<open>0\<close>).
\<close>

datatype track =
  Track (ttype: string) (ttitle: "string option") (tchildren: "track list")
        (tmediaDownloadUrl: string) (tsize: int)

record file_info =
  fi_title :: string
  fi_mediaDownloadUrl :: string
  fi_path :: string
  fi_filename :: string
  fi_size :: int

fun extract_files_from_tracks :: "track list \<Rightarrow> string \<Rightarrow> file_info list" where
  "extract_files_from_tracks [] base_path = []"
| "extract_files_from_tracks (Track ty ti ch url sz # tracks) base_path =
     (if ty = ''folder'' then
        (let track_title = (case ti of None \<Rightarrow> ''Unknown Folder'' | Some t \<Rightarrow> t);
             folder_path = (if base_path \<noteq> [] then base_path @ ''/'' @ sanitize_filename track_title
                            else sanitize_filename track_title)
         in extract_files_from_tracks ch folder_path @ extract_files_from_tracks tracks base_path)
      else
        \<lparr> fi_title = (case ti of None \<Rightarrow> ''Unknown File'' | Some t \<Rightarrow> t),
          fi_mediaDownloadUrl = url,
          fi_path = base_path,
          fi_filename = sanitize_filename (case ti of None \<Rightarrow> ''Unknown File'' | Some t \<Rightarrow> t),
          fi_size = sz \<rparr> # extract_files_from_tracks tracks base_path)"

subsection \<open>sync_downloader_simple.py: path filter\<close>

definition path_matches :: "string \<Rightarrow> string \<Rightarrow> bool" where
  "path_matches file_path0 target_path0 =
     (let file_path = strip_chars ''/'' file_path0;
          target_path = strip_chars ''/'' target_path0
      in if target_path = [] then True
         else if file_path = target_path then True
         else if startswith file_path (target_path @ ''/'') then True
         else (let file_dir = (if CHR ''/'' \<in> set file_path
                               then join_with ''/'' (butlast (split_on CHR ''/'' file_path))
                               else [])
               in if file_dir = target_path then True else False))"

definition full_path_of :: "file_info \<Rightarrow> string" where
  "full_path_of file_info =
     (if fi_path file_info \<noteq> [] then fi_path file_info @ ''/'' @ fi_filename file_info
      else fi_filename file_info)"

definition filter_files_by_path :: "file_info list \<Rightarrow> string \<Rightarrow> file_info list" where
  "filter_files_by_path all_files target_path0 =
     (let target_path = strip_chars ''/'' target_path0
      in filter (\<lambda>file_info. path_matches (full_path_of file_info) target_path) all_files)"

subsection \<open>sync_downloader_simple.py: file structure tree\<close>

text \<open>
  A Python dictionary that is iterated is an association list in insertion order with
  distinct keys: assigning to a key that is present replaces its value in place, assigning
  to a new key appends.
\<close>

fun dict_set :: "('k \<times> 'v) list \<Rightarrow> 'k \<Rightarrow> 'v \<Rightarrow> ('k \<times> 'v) list" where
  "dict_set [] k v = [(k, v)]"
| "dict_set ((k', v') # d) k v = (if k' = k then (k, v) # d else (k', v') # dict_set d k v)"

datatype node =
  FileNode (n_size: int) (n_url: string)
| FolderNode (n_children: "(string \<times> node) list") (n_file_count: int)

type_synonym fstructure = "(string \<times> node) list"

fun count_files_in_structure :: "fstructure \<Rightarrow> int" where
  "count_files_in_structure [] = 0"
| "count_files_in_structure ((k, FileNode sz url) # rest) = 1 + count_files_in_structure rest"
| "count_files_in_structure ((k, FolderNode ch fc) # rest) = fc + count_files_in_structure rest"

fun build_file_structure_loop :: "track list \<Rightarrow> string \<Rightarrow> fstructure \<Rightarrow> fstructure" where
  "build_file_structure_loop [] base_path struct = struct"
| "build_file_structure_loop (Track ty ti ch url sz # tracks) base_path struct =
     (if ty = ''folder'' then
        (let track_title = (case ti of None \<Rightarrow> ''Unknown Folder'' | Some t \<Rightarrow> t);
             folder_name = sanitize_filename track_title;
             child_structure = build_file_structure_loop ch
                (if base_path \<noteq> [] then base_path @ ''/'' @ folder_name else folder_name) []
         in build_file_structure_loop tracks base_path
              (dict_set struct folder_name
                 (FolderNode child_structure (count_files_in_structure child_structure))))
      else
        (let filename = sanitize_filename (case ti of None \<Rightarrow> ''Unknown File'' | Some t \<Rightarrow> t)
         in build_file_structure_loop tracks base_path
              (dict_set struct filename (FileNode sz url))))"

definition build_file_structure :: "track list \<Rightarrow> string \<Rightarrow> fstructure" where
  "build_file_structure tracks base_path = build_file_structure_loop tracks base_path []"

subsection \<open>async_handler_fixed.py: size lookup\<close>

fun search_structure :: "fstructure \<Rightarrow> string \<Rightarrow> int" where
  "search_structure [] filename = 0"
| "search_structure ((key, FileNode sz url) # rest) filename =
     (if key = filename then sz else search_structure rest filename)"
| "search_structure ((key, FolderNode ch fc) # rest) filename =
     (let size = search_structure ch filename
      in if size > 0 then size else search_structure rest filename)"

definition get_file_size_from_structure :: "fstructure \<Rightarrow> string \<Rightarrow> int" where
  "get_file_size_from_structure file_structure filename = search_structure file_structure filename"


subsection \<open>Python number formatting\<close>

definition digit_char :: "nat \<Rightarrow> char" where
  "digit_char d = (''0123456789'' ! d)"

fun nat_digits :: "nat \<Rightarrow> string" where
  "nat_digits n = (if n < 10 then [digit_char n] else nat_digits (n div 10) @ [digit_char (n mod 10)])"

declare nat_digits.simps [simp del]

definition str_int :: "int \<Rightarrow> string" where
  \<comment> \<open>\<open>str(n)\<close>, \<open>f"{n}"\<close>\<close>
  "str_int n = (if n < 0 then ''-'' @ nat_digits (nat (- n)) else nat_digits (nat n))"

definition fmt_02d :: "int \<Rightarrow> string" where
  \<comment> \<open>\<open>f"{n:02d}"\<close>: the sign counts towards the width of two\<close>
  "fmt_02d n = (if 0 \<le> n \<and> n < 10 then CHR ''0'' # str_int n else str_int n)"

definition py_int :: "real \<Rightarrow> int" where
  \<comment> \<open>\<open>int(x)\<close> on a float truncates towards zero\<close>
  "py_int x = (if x \<ge> 0 then \<lfloor>x\<rfloor> else \<lceil>x\<rceil>)"

subsection \<open>config.py\<close>

record ASMRConfig =
  username :: string
  password :: string
  download_path :: string
  api_channel :: "string option"
  progress_update_interval :: int

definition default_progress_update_interval :: int where
  \<comment> \<open>the dataclass default, and the default of \<open>ASMR_PROGRESS_UPDATE_INTERVAL\<close> in \<open>from_env\<close>\<close>
  "default_progress_update_interval = 30"

definition validate :: "ASMRConfig \<Rightarrow> bool" where
  "validate cfg = (if username cfg = [] \<or> password cfg = [] then False else True)"

subsection \<open>progress_manager.py\<close>

text \<open>
  The keyword arguments that the update methods hand to \<open>update_progress\<close>; a key that
  a call does not pass is \<open>None\<close>. The two keys with formatted text, \<open>message\<close> and
  \<open>downloadSpeed\<close>, are left out: no claim reads them.
\<close>

record kwargs =
  workId :: "string option"
  workTitle :: "string option"
  progress :: "real option"
  eta :: "string option"
  completedFiles :: "int option"
  totalFiles :: "int option"
  currentFile :: "string option"
  completedFilesList :: "string list option"
  failedFilesList :: "string list option"
  fileStructure :: "fstructure option"
  downloadedBytes :: "int option"
  totalBytes :: "int option"
  downloadDir :: "string option"
  reason :: "string option"

definition no_kwargs :: kwargs where
  "no_kwargs = \<lparr> workId = None, workTitle = None, progress = None, eta = None,
     completedFiles = None, totalFiles = None, currentFile = None, completedFilesList = None,
     failedFilesList = None, fileStructure = None, downloadedBytes = None, totalBytes = None,
     downloadDir = None, reason = None \<rparr>"

text \<open>The JSON object \<open>progress_data\<close> written to \<open>ASMRTools-<task_id>.json\<close>.\<close>

record progress_data =
  requestId :: string
  status :: string
  pluginName :: string
  timestamp :: real
  kw :: kwargs

text \<open>One entry of \<open>_progress_history\<close>.\<close>

record sample =
  s_time :: real
  s_progress :: real
  s_completed_files :: int
  s_downloaded_bytes :: int
  s_total_bytes :: int

text \<open>
  The attributes of a \<open>ProgressManager\<close>. \<open>_last_progress\<close> and \<open>_last_eta_seconds\<close> are
  not set by \<open>__init__\<close>; the code tests them with \<open>hasattr\<close>, so they are options.
\<close>

record ProgressManager =
  update_interval :: int
  last_update_time :: real
  start_time :: real
  progress_history :: "sample list"
  completed_files_list :: "string list"
  file_structure :: fstructure
  last_progress :: "real option"
  last_eta_seconds :: "int option"

type_synonym work_info = "(string \<times> string) list"

definition dict_get :: "('k \<times> 'v) list \<Rightarrow> 'k \<Rightarrow> 'v \<Rightarrow> 'v" where
  \<comment> \<open>\<open>d.get(k, default)\<close>\<close>
  "dict_get d k dflt = (case map_of d k of None \<Rightarrow> dflt | Some v \<Rightarrow> v)"

definition ProgressManager_init :: "ASMRConfig \<Rightarrow> ProgressManager" where
  "ProgressManager_init cfg =
     \<lparr> update_interval = progress_update_interval cfg, last_update_time = 0, start_time = 0,
       progress_history = [], completed_files_list = [], file_structure = [],
       last_progress = None, last_eta_seconds = None \<rparr>"

definition format_eta :: "int \<Rightarrow> string" where
  "format_eta eta_seconds =
     (if eta_seconds > 7200 then ''>2h''
      else if eta_seconds > 3600 then
        (let hours = eta_seconds div 3600; minutes = (eta_seconds mod 3600) div 60
         in str_int hours @ ''h'' @ fmt_02d minutes @ ''m'')
      else
        (let minutes = eta_seconds div 60; seconds = eta_seconds mod 60
         in fmt_02d minutes @ '':'' @ fmt_02d seconds))"

definition calculate_eta_by_progress :: "sample list \<Rightarrow> real \<Rightarrow> real \<Rightarrow> string" where
  "calculate_eta_by_progress recent_history current_progress total_time_diff =
     (let total_progress_diff = s_progress (last recent_history) - s_progress (hd recent_history)
      in if total_progress_diff \<le> 0 then ''--:--''
         else (let progress_rate = total_progress_diff / total_time_diff;
                   remaining_progress = 100 - current_progress
               in if progress_rate \<le> 0 then ''--:--''
                  else format_eta (py_int (remaining_progress / progress_rate))))"

definition recent_samples :: "sample list \<Rightarrow> sample list" where
  \<comment> \<open>\<open>self._progress_history[-min(8, len(self._progress_history)):]\<close>, used when the
      history has at least two entries\<close>
  "recent_samples h = drop (length h - min 8 (length h)) h"

definition byte_rate :: "sample list \<Rightarrow> real" where
  \<comment> \<open>\<open>bytes_per_second = bytes_diff / total_time_diff\<close>\<close>
  "byte_rate recent_history =
     real_of_int (s_downloaded_bytes (last recent_history) - s_downloaded_bytes (hd recent_history))
       / (s_time (last recent_history) - s_time (hd recent_history))"

definition smooth_eta :: "int option \<Rightarrow> int \<Rightarrow> int" where
  "smooth_eta last_eta eta_seconds =
     (case last_eta of
        None \<Rightarrow> eta_seconds
      | Some l \<Rightarrow>
          if l > 0 \<and> \<bar>real_of_int (eta_seconds - l)\<bar> > real_of_int l * 0.4
          then py_int (0.7 * real_of_int l + 0.3 * real_of_int eta_seconds)
          else eta_seconds)"

definition calculate_eta :: "ProgressManager \<Rightarrow> real \<Rightarrow> real \<Rightarrow> string \<times> ProgressManager" where
  "calculate_eta pm current_progress current_time =
     (if current_progress \<le> 0 \<or> current_progress \<ge> 100 then (''--:--'', pm)
      else if length (progress_history pm) < 2 then (''--:--'', pm)
      else
        (let recent_history = recent_samples (progress_history pm)
         in if length recent_history < 2 then (''--:--'', pm)
            else
              (let total_time_diff = s_time (last recent_history) - s_time (hd recent_history)
               in if total_time_diff < 3 then (''--:--'', pm)
                  else if s_total_bytes (last recent_history) > 0 \<and>
                          s_downloaded_bytes (last recent_history) > 0 then
                    (let bytes_diff = s_downloaded_bytes (last recent_history)
                                        - s_downloaded_bytes (hd recent_history)
                     in if bytes_diff > 0 then
                          (let bytes_per_second = byte_rate recent_history;
                               remaining_bytes = s_total_bytes (last recent_history)
                                                   - s_downloaded_bytes (last recent_history)
                           in if remaining_bytes > 0 then
                                (let eta_seconds = smooth_eta (last_eta_seconds pm)
                                       (py_int (real_of_int remaining_bytes / bytes_per_second))
                                 in (format_eta eta_seconds,
                                     pm\<lparr>last_eta_seconds := Some eta_seconds\<rparr>))
                              else (''00:00'', pm))
                        else (calculate_eta_by_progress recent_history current_progress
                                total_time_diff, pm))
                  else (calculate_eta_by_progress recent_history current_progress
                          total_time_diff, pm))))"

text \<open>The arguments of \<open>update_download_progress\<close>, and the reading of the clock it makes.\<close>

record download_progress_args =
  a_task_id :: string
  a_work_info :: work_info
  a_progress_percent :: real
  a_download_speed :: int
  a_completed_files :: int
  a_total_files :: int
  a_current_file :: string
  a_completed_files_list :: "string list"
  a_downloaded_bytes :: int
  a_total_bytes :: int

definition record_sample :: "ProgressManager \<Rightarrow> real \<Rightarrow> download_progress_args \<Rightarrow> ProgressManager" where
  \<comment> \<open>lines 66 to 81: copy the completed list, append the sample, keep the last 15\<close>
  "record_sample pm current_time a =
     (let pm1 = (if a_completed_files_list a \<noteq> []
                 then pm\<lparr>completed_files_list := a_completed_files_list a\<rparr> else pm);
          h = progress_history pm1 @
                [\<lparr> s_time = current_time, s_progress = a_progress_percent a,
                   s_completed_files = a_completed_files a,
                   s_downloaded_bytes = a_downloaded_bytes a,
                   s_total_bytes = a_total_bytes a \<rparr>]
      in pm1\<lparr>progress_history := (if length h > 15 then drop (length h - 15) h else h)\<rparr>)"

definition should_update_file :: "ProgressManager \<Rightarrow> real \<Rightarrow> real \<Rightarrow> bool" where
  \<comment> \<open>lines 84 to 88: the decision to write the file\<close>
  "should_update_file pm current_time progress_percent =
     (let should = (current_time - last_update_time pm \<ge> real_of_int (update_interval pm))
      in if \<bar>progress_percent - (case last_progress pm of None \<Rightarrow> 0 | Some p \<Rightarrow> p)\<bar> > 1.0
            \<or> last_progress pm = None
         then True else should)"

definition note_progress :: "ProgressManager \<Rightarrow> real \<Rightarrow> ProgressManager" where
  \<comment> \<open>line 89: \<open>_last_progress\<close> is assigned inside the forced branch only\<close>
  "note_progress pm progress_percent =
     (if \<bar>progress_percent - (case last_progress pm of None \<Rightarrow> 0 | Some p \<Rightarrow> p)\<bar> > 1.0
         \<or> last_progress pm = None
      then pm\<lparr>last_progress := Some progress_percent\<rparr> else pm)"

definition update_download_progress ::
  "ProgressManager \<Rightarrow> real \<Rightarrow> download_progress_args \<Rightarrow> ProgressManager \<times> (string \<times> string \<times> kwargs) option" where
  "update_download_progress pm current_time a =
     (let pm1 = record_sample pm current_time a;
          should = should_update_file pm1 current_time (a_progress_percent a);
          pm2 = note_progress pm1 (a_progress_percent a);
          (eta_str, pm3) = calculate_eta pm2 (a_progress_percent a) current_time
      in if should then
           (pm3\<lparr>last_update_time := current_time\<rparr>,
            Some (a_task_id a, ''Downloading'',
              no_kwargs\<lparr> workId := Some (dict_get (a_work_info a) ''source_id'' []),
                         workTitle := Some (dict_get (a_work_info a) ''title'' ''Unknown Work''),
                         progress := Some (a_progress_percent a),
                         eta := Some eta_str,
                         completedFiles := Some (a_completed_files a),
                         totalFiles := Some (a_total_files a),
                         currentFile := Some (a_current_file a),
                         completedFilesList := Some (completed_files_list pm3),
                         fileStructure := Some (file_structure pm3),
                         downloadedBytes := Some (a_downloaded_bytes a),
                         totalBytes := Some (a_total_bytes a) \<rparr>))
         else (pm3, None))"

type_synonym call = "string \<times> string \<times> kwargs"

definition update_starting :: "ProgressManager \<Rightarrow> real \<Rightarrow> string \<Rightarrow> string \<Rightarrow> ProgressManager \<times> call" where
  "update_starting pm now task_id work_id =
     (pm\<lparr> start_time := now, progress_history := [], completed_files_list := [],
          file_structure := [], last_eta_seconds := Some 0 \<rparr>,
      (task_id, ''Starting'',
       no_kwargs\<lparr> workId := Some work_id, progress := Some 0.0, eta := Some ''--:--'',
                  completedFiles := Some 0, totalFiles := Some 0, currentFile := Some [],
                  completedFilesList := Some [], fileStructure := Some [] \<rparr>))"

definition update_preparing ::
  "ProgressManager \<Rightarrow> string \<Rightarrow> work_info \<Rightarrow> int \<Rightarrow> fstructure \<Rightarrow> ProgressManager \<times> call" where
  "update_preparing pm task_id work_info total_files file_structure0 =
     (let pm1 = (if file_structure0 \<noteq> [] then pm\<lparr>file_structure := file_structure0\<rparr> else pm)
      in (pm1,
          (task_id, ''Preparing'',
           no_kwargs\<lparr> workId := Some (dict_get work_info ''source_id'' []),
                      workTitle := Some (dict_get work_info ''title'' ''Unknown Work''),
                      progress := Some 5.0,
                      totalFiles := Some total_files,
                      fileStructure := Some (file_structure pm1) \<rparr>)))"

record download_result =
  r_work_title :: string
  r_download_dir :: string
  r_total_tracks :: int
  r_success_count :: int
  r_failed_count :: int
  r_completed_downloads :: "string list"
  r_failed_downloads :: "string list"

definition update_success :: "string \<Rightarrow> work_info \<Rightarrow> download_result \<Rightarrow> call" where
  "update_success task_id work_info download_result =
     (task_id, ''Succeed'',
      no_kwargs\<lparr> workId := Some (dict_get work_info ''source_id'' []),
                 workTitle := Some (dict_get work_info ''title'' ''Unknown Work''),
                 progress := Some 100.0,
                 completedFiles := Some (r_success_count download_result),
                 totalFiles := Some (r_total_tracks download_result),
                 downloadDir := Some (r_download_dir download_result),
                 completedFilesList := Some (r_completed_downloads download_result),
                 failedFilesList := Some (r_failed_downloads download_result) \<rparr>)"

definition update_failed :: "string \<Rightarrow> string \<Rightarrow> work_info option \<Rightarrow> call" where
  \<comment> \<open>\<open>if work_info:\<close> holds for a dictionary that is present and not empty\<close>
  "update_failed task_id reason0 work_info =
     (task_id, ''Failed'',
      (case work_info of
         None \<Rightarrow> no_kwargs\<lparr>reason := Some reason0\<rparr>
       | Some wi \<Rightarrow>
           if wi \<noteq> [] then
             no_kwargs\<lparr> reason := Some reason0,
                        workId := Some (dict_get wi ''source_id'' []),
                        workTitle := Some (dict_get wi ''title'' ''Unknown Work'') \<rparr>
           else no_kwargs\<lparr>reason := Some reason0\<rparr>))"

subsection \<open>The world outside the job\<close>

datatype 'a io = Raises string | Returns 'a

datatype fetch =
  Transport_error
| Response (status_code: int) (content_length: int) (chunks: "int list") (interrupted: bool)

text \<open>
  Everything the job reads from outside: the clock (\<open>time.time()\<close>, one reading per call),
  whether each attempt to write a progress file succeeds, the configuration, the outcome
  of each request. \<open>Raises e\<close> is an exception whose \<open>str\<close> is \<open>e\<close>. For a file
  request, \<open>Transport_error\<close> is \<open>session.get\<close> raising, and \<open>Response\<close> carries the
  status code, the \<open>content-length\<close> header, the lengths of the chunks that
  \<open>iter_content\<close> yields, and whether the stream then breaks with an exception.
  Local directory creation and local file writes of the download tree are taken to succeed.
\<close>

record world =
  w_clock :: "nat \<Rightarrow> real"
  w_write_ok :: "nat \<Rightarrow> bool"
  w_pm_init :: "unit io"
  w_config :: ASMRConfig
  w_ensure_download_path :: "unit io"
  w_login :: "(int \<times> unit io) io"
  w_work :: "(int \<times> work_info io) io"
  w_tracks :: "(int \<times> track list io) io"
  w_fetch :: "string \<Rightarrow> fetch"

text \<open>One \<open>progress_info\<close> dictionary passed to the progress callback.\<close>

record progress_info =
  p_filename :: string
  p_status :: string
  p_completed_length :: int
  p_total_length :: int
  p_download_speed :: int
  p_progress_percent :: real

text \<open>
  The state of one job: the clock readings and write attempts made so far, the directory
  \<open>VCPAsyncResults\<close> (file name to content) with the list of snapshots written to it,
  oldest first, the progress manager (\<open>None\<close> until it is constructed), the download tree
  (path to size in bytes), the urls requested and the bytes received, the
  \<open>progress_info\<close> dictionaries handed to the callback, and the four \<open>nonlocal\<close> variables
  of \<open>progress_callback\<close>.
\<close>

record jstate =
  ticks :: nat
  attempts :: nat
  results_dir :: "string \<rightharpoonup> progress_data"
  written :: "progress_data list"
  progress_manager :: "ProgressManager option"
  disk :: "string \<rightharpoonup> int"
  requests :: "string list"
  transferred :: int
  emitted :: "progress_info list"
  cb_completed_files :: int
  cb_current_file :: string
  cb_completed_files_list :: "string list"
  cb_downloaded_bytes :: int

definition time_time :: "world \<Rightarrow> jstate \<Rightarrow> real \<times> jstate" where
  "time_time w st = (w_clock w (ticks st), st\<lparr>ticks := Suc (ticks st)\<rparr>)"

definition update_progress :: "world \<Rightarrow> call \<Rightarrow> jstate \<Rightarrow> jstate" where
  \<comment> \<open>a failed write is swallowed by the \<open>except\<close> clause and leaves the file as it was\<close>
  "update_progress w c st =
     (case c of (task_id, status0, kwargs0) \<Rightarrow>
        (let (t, st1) = time_time w st;
             data = \<lparr> requestId = task_id, status = status0, pluginName = ''ASMRTools'',
                      timestamp = t, kw = kwargs0 \<rparr>;
             st2 = st1\<lparr>attempts := Suc (attempts st1)\<rparr>
         in if w_write_ok w (attempts st1)
            then st2\<lparr> results_dir := (results_dir st2)(''ASMRTools-'' @ task_id @ ''.json'' \<mapsto> data),
                      written := written st2 @ [data] \<rparr>
            else st2))"

subsection \<open>async_handler_fixed.py: the progress callback\<close>

record cb_context =
  c_task_id :: string
  c_work_info :: work_info
  c_total_files :: int
  c_total_bytes :: int
  c_file_sizes :: "string \<rightharpoonup> int"

definition size_of :: "(string \<rightharpoonup> int) \<Rightarrow> string \<Rightarrow> int" where
  \<comment> \<open>\<open>file_sizes.get(filename, 0)\<close>\<close>
  "size_of file_sizes filename = (case file_sizes filename of None \<Rightarrow> 0 | Some n \<Rightarrow> n)"

definition count_event :: "cb_context \<Rightarrow> progress_info \<Rightarrow> jstate \<Rightarrow> jstate" where
  \<comment> \<open>lines 283 to 298: the bookkeeping of the event\<close>
  "count_event ctx progress_info0 st =
     (if p_status progress_info0 = ''complete'' \<or> p_status progress_info0 = ''skipped'' then
        (let st' = st\<lparr>cb_completed_files := cb_completed_files st + 1\<rparr>;
             filename = p_filename progress_info0
         in if filename \<noteq> [] \<and> filename \<notin> set (cb_completed_files_list st') then
              st'\<lparr> cb_completed_files_list := cb_completed_files_list st' @ [filename],
                   cb_downloaded_bytes := cb_downloaded_bytes st'
                                            + size_of (c_file_sizes ctx) filename \<rparr>
            else st')
      else if p_status progress_info0 = ''active'' then
        st\<lparr> cb_downloaded_bytes :=
              sum_list (map (size_of (c_file_sizes ctx)) (cb_completed_files_list st))
                + p_completed_length progress_info0 \<rparr>
      else st)"

definition set_current_file :: "progress_info \<Rightarrow> jstate \<Rightarrow> jstate" where
  \<comment> \<open>lines 300 and 301\<close>
  "set_current_file progress_info0 st =
     (if p_filename progress_info0 \<noteq> []
      then st\<lparr>cb_current_file := p_filename progress_info0\<rparr> else st)"

definition overall_progress :: "cb_context \<Rightarrow> jstate \<Rightarrow> real" where
  \<comment> \<open>lines 304 to 308\<close>
  "overall_progress ctx st =
     (if c_total_bytes ctx > 0
      then (real_of_int (cb_downloaded_bytes st) / real_of_int (c_total_bytes ctx)) * 100
      else if c_total_files ctx > 0
           then (real_of_int (cb_completed_files st) / real_of_int (c_total_files ctx)) * 100
           else 0)"

definition callback_args :: "cb_context \<Rightarrow> progress_info \<Rightarrow> jstate \<Rightarrow> download_progress_args" where
  \<comment> \<open>the arguments of the call in lines 312 to 323\<close>
  "callback_args ctx progress_info0 st =
     \<lparr> a_task_id = c_task_id ctx, a_work_info = c_work_info ctx,
       a_progress_percent = overall_progress ctx st,
       a_download_speed = p_download_speed progress_info0,
       a_completed_files = cb_completed_files st,
       a_total_files = c_total_files ctx,
       a_current_file = cb_current_file st,
       a_completed_files_list = cb_completed_files_list st,
       a_downloaded_bytes = cb_downloaded_bytes st,
       a_total_bytes = c_total_bytes ctx \<rparr>"

definition report_progress :: "world \<Rightarrow> cb_context \<Rightarrow> progress_info \<Rightarrow> jstate \<Rightarrow> jstate" where
  \<comment> \<open>lines 311 to 323: \<open>if progress_manager: progress_manager.update_download_progress(...)\<close>,
      which reads the clock and writes the file when the throttle lets it\<close>
  "report_progress w ctx progress_info0 st =
     (case progress_manager st of
        None \<Rightarrow> st
      | Some pm \<Rightarrow>
          (let (current_time, st1) = time_time w st;
               (pm', c) = update_download_progress pm current_time
                            (callback_args ctx progress_info0 st);
               st2 = st1\<lparr>progress_manager := Some pm'\<rparr>
           in case c of None \<Rightarrow> st2 | Some c' \<Rightarrow> update_progress w c' st2))"

definition progress_callback :: "world \<Rightarrow> cb_context \<Rightarrow> progress_info \<Rightarrow> jstate \<Rightarrow> jstate" where
  "progress_callback w ctx progress_info0 st =
     report_progress w ctx progress_info0
       (set_current_file progress_info0 (count_event ctx progress_info0 st))"

subsection \<open>sync_downloader_simple.py: downloading\<close>

type_synonym callback = "(progress_info \<Rightarrow> jstate \<Rightarrow> jstate) option"

definition emit :: "callback \<Rightarrow> progress_info \<Rightarrow> jstate \<Rightarrow> jstate" where
  \<comment> \<open>\<open>if progress_callback: progress_callback({...})\<close>\<close>
  "emit cb progress_info0 st =
     (case cb of None \<Rightarrow> st
      | Some f \<Rightarrow> f progress_info0 (st\<lparr>emitted := emitted st @ [progress_info0]\<rparr>))"

definition active_event :: "string \<Rightarrow> int \<Rightarrow> real \<Rightarrow> int \<Rightarrow> real \<Rightarrow> progress_info" where
  \<comment> \<open>lines 192 to 206: the dictionary passed to the callback while a file is streamed\<close>
  "active_event filename total_size start_time0 downloaded_size current_time =
     (let elapsed_time = current_time - start_time0;
          download_speed = (if elapsed_time > 0
                            then py_int (real_of_int downloaded_size / elapsed_time) else 0);
          progress_percent = (if total_size > 0
                              then real_of_int downloaded_size / real_of_int total_size * 100
                              else 0)
      in \<lparr> p_filename = filename, p_status = ''active'',
           p_completed_length = downloaded_size, p_total_length = total_size,
           p_download_speed = download_speed, p_progress_percent = progress_percent \<rparr>)"

definition write_chunk :: "string \<Rightarrow> int \<Rightarrow> int \<Rightarrow> jstate \<Rightarrow> jstate" where
  \<comment> \<open>\<open>f.write(chunk)\<close>: the file holds \<open>downloaded_size\<close> bytes, \<open>chunk\<close> more were received\<close>
  "write_chunk full_file_path downloaded_size chunk st =
     st\<lparr> disk := (disk st)(full_file_path \<mapsto> downloaded_size),
         transferred := transferred st + chunk \<rparr>"

fun stream_chunks ::
  "world \<Rightarrow> callback \<Rightarrow> string \<Rightarrow> string \<Rightarrow> int \<Rightarrow> real \<Rightarrow> int list \<Rightarrow> int \<times> real \<times> jstate
     \<Rightarrow> int \<times> real \<times> jstate" where
  "stream_chunks w cb filename full_file_path total_size start_time0 [] acc = acc"
| "stream_chunks w cb filename full_file_path total_size start_time0 (chunk # rest)
       (downloaded_size, last_progress_time, st) =
     (if chunk > 0 then
        (let downloaded_size' = downloaded_size + chunk;
             st1 = write_chunk full_file_path downloaded_size' chunk st;
             (current_time, st2) = time_time w st1
         in if cb \<noteq> None \<and> current_time - last_progress_time \<ge> 2.0 then
              stream_chunks w cb filename full_file_path total_size start_time0 rest
                (downloaded_size', current_time,
                 emit cb (active_event filename total_size start_time0 downloaded_size'
                            current_time) st2)
            else
              stream_chunks w cb filename full_file_path total_size start_time0 rest
                (downloaded_size', last_progress_time, st2))
      else stream_chunks w cb filename full_file_path total_size start_time0 rest
             (downloaded_size, last_progress_time, st))"

definition exists_nonempty :: "jstate \<Rightarrow> string \<Rightarrow> bool" where
  \<comment> \<open>\<open>full_file_path.exists() and full_file_path.stat().st_size > 0\<close>\<close>
  "exists_nonempty st full_file_path =
     (case disk st full_file_path of None \<Rightarrow> False | Some n \<Rightarrow> n > 0)"

definition st_size :: "jstate \<Rightarrow> string \<Rightarrow> int" where
  \<comment> \<open>\<open>full_file_path.stat().st_size\<close>, read only for a file that exists\<close>
  "st_size st full_file_path = (case disk st full_file_path of None \<Rightarrow> 0 | Some n \<Rightarrow> n)"

definition full_file_path_of :: "string \<Rightarrow> file_info \<Rightarrow> string" where
  \<comment> \<open>lines 147 to 155: \<open>download_dir / file_path / filename\<close>, or \<open>download_dir / filename\<close>\<close>
  "full_file_path_of download_dir file_info =
     (let file_path = fi_path file_info; filename = fi_filename file_info
      in if file_path \<noteq> [] then download_dir @ ''/'' @ file_path @ ''/'' @ filename
         else download_dir @ ''/'' @ filename)"

definition download_single_file ::
  "world \<Rightarrow> callback \<Rightarrow> file_info \<Rightarrow> string \<Rightarrow> jstate \<Rightarrow> bool \<times> jstate" where
  "download_single_file w cb file_info download_dir st =
     (let url = fi_mediaDownloadUrl file_info
      in if url = [] then (False, st)
         else
           (let filename = fi_filename file_info;
                full_file_path = full_file_path_of download_dir file_info
            in if exists_nonempty st full_file_path then
                 (True,
                  emit cb \<lparr> p_filename = filename, p_status = ''skipped'',
                             p_completed_length = st_size st full_file_path,
                             p_total_length = st_size st full_file_path,
                             p_download_speed = 0, p_progress_percent = 100 \<rparr> st)
               else
                 (let st1 = st\<lparr>requests := requests st @ [url]\<rparr>
                  in case w_fetch w url of
                       Transport_error \<Rightarrow> (False, st1)
                     | Response code total_size chunks0 broken \<Rightarrow>
                         if code \<noteq> 200 then (False, st1)
                         else
                           (let (start_time0, st2) = time_time w st1;
                                st3 = st2\<lparr>disk := (disk st2)(full_file_path \<mapsto> 0)\<rparr>;
                                (downloaded_size, last_progress_time, st4) =
                                   stream_chunks w cb filename full_file_path total_size
                                     start_time0 chunks0 (0, 0, st3)
                            in if broken then (False, st4)
                               else
                                 (True,
                                  emit cb \<lparr> p_filename = filename, p_status = ''complete'',
                                             p_completed_length = downloaded_size,
                                             p_total_length = total_size,
                                             p_download_speed = 0,
                                             p_progress_percent = 100 \<rparr> st4)))))"

fun download_loop ::
  "world \<Rightarrow> callback \<Rightarrow> string \<Rightarrow> file_info list \<Rightarrow> string list \<times> string list \<times> jstate
     \<Rightarrow> string list \<times> string list \<times> jstate" where
  "download_loop w cb download_dir [] acc = acc"
| "download_loop w cb download_dir (file_info # rest) (completed_downloads, failed_downloads, st) =
     (let (success, st') = download_single_file w cb file_info download_dir st
      in if success
         then download_loop w cb download_dir rest
                (completed_downloads @ [fi_filename file_info], failed_downloads, st')
         else download_loop w cb download_dir rest
                (completed_downloads, failed_downloads @ [fi_filename file_info], st'))"

definition download_dir_of :: "ASMRConfig \<Rightarrow> work_info \<Rightarrow> string" where
  "download_dir_of cfg work_info =
     download_path cfg @ ''/asmr/'' @ dict_get work_info ''source_id'' ''unknown'' @ '' - ''
       @ sanitize_filename (dict_get work_info ''title'' ''Unknown Work'')"

definition selected_files :: "track list \<Rightarrow> string \<Rightarrow> file_info list" where
  \<comment> \<open>the files of the job: all of them, or those under \<open>target_path\<close> when it is given\<close>
  "selected_files tracks target_path =
     (let all_files = extract_files_from_tracks tracks []
      in if target_path \<noteq> [] then filter_files_by_path all_files target_path else all_files)"

definition download_tracks ::
  "world \<Rightarrow> callback \<Rightarrow> track list \<Rightarrow> work_info \<Rightarrow> string \<Rightarrow> jstate \<Rightarrow> download_result \<times> jstate" where
  "download_tracks w cb tracks work_info target_path st =
     (let work_title = dict_get work_info ''title'' ''Unknown Work'';
          download_dir = download_dir_of (w_config w) work_info;
          all_files = selected_files tracks target_path;
          (completed_downloads, failed_downloads, st') =
             download_loop w cb download_dir all_files ([], [], st)
      in (\<lparr> r_work_title = work_title, r_download_dir = download_dir,
            r_total_tracks = int (length all_files),
            r_success_count = int (length completed_downloads),
            r_failed_count = int (length failed_downloads),
            r_completed_downloads = completed_downloads,
            r_failed_downloads = failed_downloads \<rparr>, st'))"

subsection \<open>async_handler_fixed.py: the job\<close>

fun size_table ::
  "fstructure \<Rightarrow> file_info list \<Rightarrow> int \<times> (string \<rightharpoonup> int) \<Rightarrow> int \<times> (string \<rightharpoonup> int)" where
  \<comment> \<open>lines 265 to 271: \<open>total_bytes\<close> and the dictionary \<open>file_sizes\<close>\<close>
  "size_table file_structure0 [] acc = acc"
| "size_table file_structure0 (file_info # rest) (total_bytes, file_sizes) =
     (let file_size = get_file_size_from_structure file_structure0 (fi_filename file_info)
      in size_table file_structure0 rest
           (total_bytes + file_size, file_sizes(fi_filename file_info \<mapsto> file_size)))"

text \<open>The dictionary that \<open>perform_download_sync\<close> returns (without its \<open>message\<close>).\<close>

record job_result =
  j_requestId :: string
  j_status :: string
  j_reason :: "string option"
  j_workTitle :: "string option"
  j_downloadDir :: "string option"
  j_totalTracks :: "int option"
  j_successCount :: "int option"
  j_failedCount :: "int option"
  j_completedFiles :: "string list option"
  j_failedFiles :: "string list option"

definition failed_result :: "string \<Rightarrow> string \<Rightarrow> job_result" where
  "failed_result task_id reason0 =
     \<lparr> j_requestId = task_id, j_status = ''Failed'', j_reason = Some reason0,
       j_workTitle = None, j_downloadDir = None, j_totalTracks = None, j_successCount = None,
       j_failedCount = None, j_completedFiles = None, j_failedFiles = None \<rparr>"

definition success_result :: "string \<Rightarrow> download_result \<Rightarrow> job_result" where
  \<comment> \<open>lines 350 to 363\<close>
  "success_result task_id download_result =
     \<lparr> j_requestId = task_id, j_status = ''Succeed'', j_reason = None,
       j_workTitle = Some (r_work_title download_result),
       j_downloadDir = Some (r_download_dir download_result),
       j_totalTracks = Some (r_total_tracks download_result),
       j_successCount = Some (r_success_count download_result),
       j_failedCount = Some (r_failed_count download_result),
       j_completedFiles = Some (r_completed_downloads download_result),
       j_failedFiles = Some (r_failed_downloads download_result) \<rparr>"

definition pm_call :: "world \<Rightarrow> call \<Rightarrow> jstate \<Rightarrow> jstate" where
  \<comment> \<open>\<open>if progress_manager: progress_manager.update_...(...)\<close>\<close>
  "pm_call w c st = (case progress_manager st of None \<Rightarrow> st | Some pm \<Rightarrow> update_progress w c st)"

definition job_context :: "string \<Rightarrow> work_info \<Rightarrow> track list \<Rightarrow> string \<Rightarrow> cb_context" where
  \<comment> \<open>what the closure \<open>progress_callback\<close> captures: lines 254 and 264 to 271\<close>
  "job_context task_id work_info tracks target_path =
     (let all_files = selected_files tracks target_path;
          total_files = int (length all_files);
          file_structure0 = build_file_structure tracks [];
          (total_bytes, file_sizes) = size_table file_structure0 all_files (0, Map.empty)
      in \<lparr> c_task_id = task_id, c_work_info = work_info, c_total_files = total_files,
           c_total_bytes = total_bytes, c_file_sizes = file_sizes \<rparr>)"

definition prepare :: "world \<Rightarrow> string \<Rightarrow> work_info \<Rightarrow> track list \<Rightarrow> string \<Rightarrow> jstate \<Rightarrow> jstate" where
  \<comment> \<open>lines 257 to 262 and 274 to 277: the Preparing snapshot, then the initial values of
      the four \<open>nonlocal\<close> variables\<close>
  "prepare w task_id work_info tracks target_path st =
     (let total_files = int (length (selected_files tracks target_path));
          file_structure0 = build_file_structure tracks [];
          st1 = (case progress_manager st of
                   None \<Rightarrow> st
                 | Some pm \<Rightarrow>
                     (let (pm', c) = update_preparing pm task_id work_info total_files file_structure0
                      in update_progress w c (st\<lparr>progress_manager := Some pm'\<rparr>)))
      in st1\<lparr> cb_completed_files := 0, cb_current_file := [],
              cb_completed_files_list := [], cb_downloaded_bytes := 0 \<rparr>)"

definition download_phase ::
  "world \<Rightarrow> string \<Rightarrow> string \<Rightarrow> string \<Rightarrow> work_info \<Rightarrow> track list \<Rightarrow> jstate
     \<Rightarrow> (string + job_result) \<times> jstate" where
  \<comment> \<open>lines 242 to 377, once the tracks are known\<close>
  "download_phase w task_id work_id target_path work_info tracks st =
     (let ctx = job_context task_id work_info tracks target_path;
          st2 = prepare w task_id work_info tracks target_path st;
          (download_result, st3) =
             download_tracks w (Some (progress_callback w ctx)) tracks work_info target_path st2
      in if r_success_count download_result > 0 then
           (Inr (success_result task_id download_result),
            pm_call w (update_success task_id work_info download_result) st3)
         else
           (Inr ((failed_result task_id ''All downloads failed'')
                   \<lparr>j_failedFiles := Some (r_failed_downloads download_result)\<rparr>),
            pm_call w (update_failed task_id ''All downloads failed'' (Some work_info)) st3))"

definition start_job :: "world \<Rightarrow> string \<Rightarrow> string \<Rightarrow> jstate \<Rightarrow> jstate" where
  \<comment> \<open>lines 148 to 151: the progress manager is constructed and writes the Starting snapshot\<close>
  "start_job w task_id work_id st =
     (let st0 = st\<lparr>progress_manager := Some (ProgressManager_init (w_config w))\<rparr>;
          (now, st1) = time_time w st0;
          (pm', c) = update_starting (ProgressManager_init (w_config w)) now task_id work_id
      in update_progress w c (st1\<lparr>progress_manager := Some pm'\<rparr>))"

definition perform_download_body ::
  "world \<Rightarrow> string \<Rightarrow> string \<Rightarrow> string \<Rightarrow> jstate \<Rightarrow> (string + job_result) \<times> jstate" where
  \<comment> \<open>the \<open>try\<close> block; \<open>Inl e\<close> is an exception leaving it\<close>
  "perform_download_body w task_id work_id target_path st =
     (case w_pm_init w of
        Raises e \<Rightarrow> (Inl e, st)
      | Returns _ \<Rightarrow>
          (let st2 = start_job w task_id work_id st
           in if \<not> validate (w_config w) then
                (Inr (failed_result task_id
                        ''Invalid configuration: username and password are required''),
                 pm_call w (update_failed task_id
                        ''Invalid configuration: username and password are required'' None) st2)
              else
                (case w_ensure_download_path w of
                   Raises e \<Rightarrow> (Inl e, st2)
                 | Returns _ \<Rightarrow>
                (case w_login w of
                   Raises e \<Rightarrow> (Inl e, st2)
                 | Returns (login_code, token) \<Rightarrow>
                     if login_code \<noteq> 200 then
                       (Inr (failed_result task_id (''Login failed: '' @ str_int login_code)),
                        pm_call w (update_failed task_id
                                     (''Login failed: '' @ str_int login_code) None) st2)
                     else
                (case token of
                   Raises e \<Rightarrow> (Inl e, st2)
                 | Returns _ \<Rightarrow>
                (case w_work w of
                   Raises e \<Rightarrow> (Inl e, st2)
                 | Returns (work_code, work_json) \<Rightarrow>
                     if work_code \<noteq> 200 then
                       (Inr (failed_result task_id (''Work not found: '' @ work_id)),
                        pm_call w (update_failed task_id (''Work not found: '' @ work_id) None) st2)
                     else
                (case work_json of
                   Raises e \<Rightarrow> (Inl e, st2)
                 | Returns work_info \<Rightarrow>
                (case w_tracks w of
                   Raises e \<Rightarrow> (Inl e, st2)
                 | Returns (tracks_code, tracks_json) \<Rightarrow>
                     if tracks_code \<noteq> 200 then
                       (Inr (failed_result task_id ''No tracks found for this work''),
                        pm_call w (update_failed task_id ''No tracks found for this work''
                                     (Some work_info)) st2)
                     else
                (case tracks_json of
                   Raises e \<Rightarrow> (Inl e, st2)
                 | Returns tracks \<Rightarrow>
                     download_phase w task_id work_id target_path work_info tracks st2)))))))))"

definition perform_download_sync ::
  "world \<Rightarrow> string \<Rightarrow> string \<Rightarrow> string \<Rightarrow> jstate \<Rightarrow> job_result \<times> jstate" where
  \<comment> \<open>the \<open>except Exception\<close> clause turns an exception into a failed result\<close>
  "perform_download_sync w task_id work_id target_path st =
     (case perform_download_body w task_id work_id target_path (st\<lparr>progress_manager := None\<rparr>) of
        (Inr result, st') \<Rightarrow> (result, st')
      | (Inl e, st') \<Rightarrow> (failed_result task_id e, pm_call w (update_failed task_id e None) st'))"

definition fresh_job :: "(string \<rightharpoonup> progress_data) \<Rightarrow> (string \<rightharpoonup> int) \<Rightarrow> jstate" where
  \<comment> \<open>the state in which a job starts: \<open>progress_manager = None\<close>, nothing done yet\<close>
  "fresh_job results0 disk0 =
     \<lparr> ticks = 0, attempts = 0, results_dir = results0, written = [], progress_manager = None,
       disk = disk0, requests = [], transferred = 0, emitted = [],
       cb_completed_files = 0, cb_current_file = [], cb_completed_files_list = [],
       cb_downloaded_bytes = 0 \<rparr>"

subsection \<open>The dispatchers: \<open>handle_async_download\<close> of ASMRTools and of MissAVCrawl\<close>

text \<open>
  The fixed pieces of text of the two acknowledgements, as UTF-8 bytes (they are Chinese
  in the source; a byte outside printable ASCII is written \<open>CHR 0x..\<close>).
\<close>

definition ack_submitted :: string where
  \<comment> \<open>task submitted, before the task id\<close>
  "ack_submitted = ''ASMR'' @ [CHR 0xE4, CHR 0xBD, CHR 0x9C, CHR 0xE5, CHR 0x93, CHR 0x81,
     CHR 0xE4, CHR 0xB8, CHR 0x8B, CHR 0xE8, CHR 0xBD, CHR 0xBD, CHR 0xE4, CHR 0xBB, CHR 0xBB,
     CHR 0xE5, CHR 0x8A, CHR 0xA1, CHR 0xE5, CHR 0xB7, CHR 0xB2, CHR 0xE6, CHR 0x8F, CHR 0x90,
     CHR 0xE4, CHR 0xBA, CHR 0xA4] @ '' (ID: ''"

definition ack_work_id :: string where
  \<comment> \<open>closing bracket, newline, the label of the work id\<close>
  "ack_work_id = '')'' @ [CHR 0x0A, CHR 0xE4, CHR 0xBD, CHR 0x9C, CHR 0xE5, CHR 0x93, CHR 0x81]
     @ ''ID: ''"

definition ack_scope :: string where
  \<comment> \<open>newline, the label of the download scope\<close>
  "ack_scope = [CHR 0x0A, CHR 0xE4, CHR 0xB8, CHR 0x8B, CHR 0xE8, CHR 0xBD, CHR 0xBD, CHR 0xE8,
     CHR 0x8C, CHR 0x83, CHR 0xE5, CHR 0x9B, CHR 0xB4] @ '': ''"

definition ack_quality_and_wait :: string where
  \<comment> \<open>the lines on audio quality and on waiting, and the request to repeat the placeholder\<close>
  "ack_quality_and_wait = [CHR 0x0A, CHR 0xE9, CHR 0x9F, CHR 0xB3, CHR 0xE8, CHR 0xB4, CHR 0xA8]
     @ '': '' @ [CHR 0xE8, CHR 0x87, CHR 0xAA, CHR 0xE5, CHR 0x8A, CHR 0xA8, CHR 0xE9, CHR 0x80,
     CHR 0x89, CHR 0xE6, CHR 0x8B, CHR 0xA9, CHR 0xE6, CHR 0x9C, CHR 0x80, CHR 0xE4, CHR 0xBD,
     CHR 0xB3, CHR 0xE9, CHR 0x9F, CHR 0xB3, CHR 0xE8, CHR 0xB4, CHR 0xA8, CHR 0x0A, CHR 0xE4,
     CHR 0xBB, CHR 0xBB, CHR 0xE5, CHR 0x8A, CHR 0xA1, CHR 0xE6, CHR 0xAD, CHR 0xA3, CHR 0xE5,
     CHR 0x9C, CHR 0xA8, CHR 0xE5, CHR 0x90, CHR 0x8E, CHR 0xE5, CHR 0x8F, CHR 0xB0, CHR 0xE5,
     CHR 0xA4, CHR 0x84, CHR 0xE7, CHR 0x90, CHR 0x86, CHR 0xE4, CHR 0xB8, CHR 0xAD, CHR 0xEF,
     CHR 0xBC, CHR 0x8C, CHR 0xE8, CHR 0xAF, CHR 0xB7, CHR 0xE8, CHR 0x80, CHR 0x90, CHR 0xE5,
     CHR 0xBF, CHR 0x83, CHR 0xE7, CHR 0xAD, CHR 0x89, CHR 0xE5, CHR 0xBE, CHR 0x85] @ ''...'' @
     [CHR 0x0A, CHR 0xE8, CHR 0xAF, CHR 0xB7, CHR 0xE5, CHR 0x9C, CHR 0xA8, CHR 0xE4, CHR 0xBD,
     CHR 0xA0, CHR 0xE7, CHR 0x9A, CHR 0x84, CHR 0xE5, CHR 0x9B, CHR 0x9E, CHR 0xE5, CHR 0xA4,
     CHR 0x8D, CHR 0xE4, CHR 0xB8, CHR 0xAD, CHR 0xE5, CHR 0x8C, CHR 0x85, CHR 0xE5, CHR 0x90,
     CHR 0xAB, CHR 0xE4, CHR 0xBB, CHR 0xA5, CHR 0xE4, CHR 0xB8, CHR 0x8B, CHR 0xE5, CHR 0x8D,
     CHR 0xA0, CHR 0xE4, CHR 0xBD, CHR 0x8D, CHR 0xE7, CHR 0xAC, CHR 0xA6, CHR 0xE5, CHR 0x8E,
     CHR 0x9F, CHR 0xE6, CHR 0x96, CHR 0x87, CHR 0xEF, CHR 0xBC, CHR 0x9A]"

definition scope_all :: string where
  \<comment> \<open>the scope description when no target path is given\<close>
  "scope_all = [CHR 0xE5, CHR 0x85, CHR 0xA8, CHR 0xE9, CHR 0x83, CHR 0xA8, CHR 0xE5, CHR 0x86,
     CHR 0x85, CHR 0xE5, CHR 0xAE, CHR 0xB9]"

definition scope_path :: string where
  \<comment> \<open>the scope description before a target path\<close>
  "scope_path = [CHR 0xE6, CHR 0x8C, CHR 0x87, CHR 0xE5, CHR 0xAE, CHR 0x9A, CHR 0xE8, CHR 0xB7,
     CHR 0xAF, CHR 0xE5, CHR 0xBE, CHR 0x84] @ '': ''"

definition msg_ai_1 :: string where
  \<comment> \<open>messageForAI, before the task id\<close>
  "msg_ai_1 = ''ASMR'' @ [CHR 0xE4, CHR 0xB8, CHR 0x8B, CHR 0xE8, CHR 0xBD, CHR 0xBD, CHR 0xE4,
     CHR 0xBB, CHR 0xBB, CHR 0xE5, CHR 0x8A, CHR 0xA1, CHR 0xE5, CHR 0xB7, CHR 0xB2, CHR 0xE6,
     CHR 0x8F, CHR 0x90, CHR 0xE4, CHR 0xBA, CHR 0xA4, CHR 0xEF, CHR 0xBC, CHR 0x8C, CHR 0xE4,
     CHR 0xBB, CHR 0xBB, CHR 0xE5, CHR 0x8A, CHR 0xA1] @ ''ID'' @ [CHR 0xE4, CHR 0xB8, CHR 0xBA]
     @ '' ''"

definition msg_ai_2 :: string where
  \<comment> \<open>messageForAI, after the task id\<close>
  "msg_ai_2 = [CHR 0xE3, CHR 0x80, CHR 0x82, CHR 0xE8, CHR 0xAF, CHR 0xB7, CHR 0xE5, CHR 0x91,
     CHR 0x8A, CHR 0xE7, CHR 0x9F, CHR 0xA5, CHR 0xE7, CHR 0x94, CHR 0xA8, CHR 0xE6, CHR 0x88,
     CHR 0xB7, CHR 0xE8, CHR 0x80, CHR 0x90, CHR 0xE5, CHR 0xBF, CHR 0x83, CHR 0xE7, CHR 0xAD,
     CHR 0x89, CHR 0xE5, CHR 0xBE, CHR 0x85, CHR 0xEF, CHR 0xBC, CHR 0x8C, CHR 0xE4, CHR 0xB8,
     CHR 0x8B, CHR 0xE8, CHR 0xBD, CHR 0xBD, CHR 0xE7, CHR 0xBB, CHR 0x93, CHR 0xE6, CHR 0x9E,
     CHR 0x9C, CHR 0xE5, CHR 0xB0, CHR 0x86, CHR 0xE9, CHR 0x80, CHR 0x9A, CHR 0xE8, CHR 0xBF,
     CHR 0x87, CHR 0xE9, CHR 0x80, CHR 0x9A, CHR 0xE7, CHR 0x9F, CHR 0xA5, CHR 0xE6, CHR 0x8E,
     CHR 0xA8, CHR 0xE9, CHR 0x80, CHR 0x81, CHR 0xE3, CHR 0x80, CHR 0x82]"

definition missav_msg_1 :: string where
  \<comment> \<open>message, before the video title\<close>
  "missav_msg_1 = [CHR 0xE5, CHR 0xB7, CHR 0xB2, CHR 0xE5, CHR 0xBC, CHR 0x80, CHR 0xE5,
     CHR 0xA7, CHR 0x8B, CHR 0xE5, CHR 0x9C, CHR 0xA8, CHR 0xE5, CHR 0x90, CHR 0x8E, CHR 0xE5,
     CHR 0x8F, CHR 0xB0, CHR 0xE4, CHR 0xB8, CHR 0x8B, CHR 0xE8, CHR 0xBD, CHR 0xBD, CHR 0xE8,
     CHR 0xA7, CHR 0x86, CHR 0xE9, CHR 0xA2, CHR 0x91] @ '' '' @ [CHR 0x27]"

definition missav_msg_2 :: string where
  \<comment> \<open>message, between the title and the task id\<close>
  "missav_msg_2 = [CHR 0x27, CHR 0xE3, CHR 0x80, CHR 0x82, CHR 0xE4, CHR 0xBB, CHR 0xBB,
     CHR 0xE5, CHR 0x8A, CHR 0xA1] @ ''ID: ''"

definition missav_msg_3 :: string where
  \<comment> \<open>message, between the task id and the placeholder\<close>
  "missav_msg_3 = [CHR 0xE3, CHR 0x80, CHR 0x82, CHR 0xE4, CHR 0xBD, CHR 0xA0, CHR 0xE5,
     CHR 0x8F, CHR 0xAF, CHR 0xE4, CHR 0xBB, CHR 0xA5, CHR 0xE4, CHR 0xBD, CHR 0xBF, CHR 0xE7,
     CHR 0x94, CHR 0xA8, CHR 0xE5, CHR 0x8D, CHR 0xA0, CHR 0xE4, CHR 0xBD, CHR 0x8D, CHR 0xE7,
     CHR 0xAC, CHR 0xA6] @ '' '' @ [CHR 0x60]"

definition missav_msg_4 :: string where
  \<comment> \<open>message, after the placeholder\<close>
  "missav_msg_4 = [CHR 0x60] @ '' '' @ [CHR 0xE6, CHR 0x9D, CHR 0xA5, CHR 0xE8, CHR 0xB7,
     CHR 0x9F, CHR 0xE8, CHR 0xB8, CHR 0xAA, CHR 0xE6, CHR 0xAD, CHR 0xA4, CHR 0xE4, CHR 0xBB,
     CHR 0xBB, CHR 0xE5, CHR 0x8A, CHR 0xA1, CHR 0xE7, CHR 0x9A, CHR 0x84, CHR 0xE8, CHR 0xBF,
     CHR 0x9B, CHR 0xE5, CHR 0xBA, CHR 0xA6, CHR 0xE3, CHR 0x80, CHR 0x82]"

definition missav_unknown_title :: string where
  \<comment> \<open>the title used when the title cannot be fetched\<close>
  "missav_unknown_title = [CHR 0xE6, CHR 0x9C, CHR 0xAA, CHR 0xE7, CHR 0x9F, CHR 0xA5, CHR 0xE8,
     CHR 0xA7, CHR 0x86, CHR 0xE9, CHR 0xA2, CHR 0x91]"

datatype json = JString string | JObject "(string \<times> json) list"

definition placeholder :: "string \<Rightarrow> string \<Rightarrow> string" where
  \<comment> \<open>\<open>f"{{{{VCP_ASYNC_RESULT::<plugin>::{task_id}}}}}"\<close>: doubled braces are literal braces\<close>
  "placeholder plugin task_id = ''{{VCP_ASYNC_RESULT::'' @ plugin @ ''::'' @ task_id @ ''}}''"

record request_data =
  rq_work_id :: string
  rq_target_path :: string

text \<open>
  What \<open>handle_async_download\<close> of ASMRTools prints, in order, and the arguments of the
  background thread it starts, if any. \<open>task_id\<close> is the value of \<open>str(uuid.uuid4())\<close>;
  \<open>thread_start\<close> is the outcome of creating and starting the thread.
\<close>

record dispatch =
  printed :: "json list"
  started :: "(string \<times> string \<times> string) option"

definition handle_async_download :: "request_data \<Rightarrow> string \<Rightarrow> unit io \<Rightarrow> dispatch" where
  "handle_async_download request task_id thread_start =
     (let work_id = rq_work_id request
      in if work_id = [] then
           \<lparr> printed = [JObject [(''status'', JString ''error''),
                                  (''error'', JString ''Work ID is required for download'')]],
             started = None \<rparr>
         else
           (let target_path = rq_target_path request;
                download_scope = (if target_path = [] then scope_all else scope_path @ target_path);
                initial_response = JObject
                  [(''status'', JString ''success''),
                   (''result'', JString (ack_submitted @ task_id @ ack_work_id @ work_id @ ack_scope
                       @ download_scope @ ack_quality_and_wait @ placeholder ''ASMRTools'' task_id)),
                   (''messageForAI'', JString (msg_ai_1 @ task_id @ msg_ai_2))]
            in case thread_start of
                 Returns _ \<Rightarrow>
                   \<lparr> printed = [initial_response], started = Some (task_id, work_id, target_path) \<rparr>
               | Raises e \<Rightarrow>
                   \<lparr> printed = [initial_response,
                                JObject [(''status'', JString ''error''),
                                         (''error'', JString (''Failed to start download task: '' @ e))]],
                     started = None \<rparr>))"

text \<open>
  The response that \<open>handle_async_download\<close> of MissAVCrawl prints. \<open>url\<close> is
  \<open>request_data.get('url')\<close> (\<open>None\<close> when absent) and \<open>title\<close> the outcome of fetching
  the video title.
\<close>

definition handle_async_download_missav :: "string option \<Rightarrow> string io \<Rightarrow> string \<Rightarrow> json" where
  "handle_async_download_missav url title task_id =
     (if url = None \<or> url = Some [] then
        JObject [(''status'', JString ''error''), (''error'', JString ''Missing url parameter.'')]
      else
        (let video_title = (case title of Returns t \<Rightarrow> t | Raises e \<Rightarrow> missav_unknown_title)
         in JObject
              [(''status'', JString ''success''),
               (''result'', JObject
                  [(''message'', JString (missav_msg_1 @ video_title @ missav_msg_2 @ task_id
                       @ missav_msg_3 @ placeholder ''MissAVCrawl'' task_id @ missav_msg_4)),
                   (''taskId'', JString task_id),
                   (''placeholder'', JString (placeholder ''MissAVCrawl'' task_id))])]))"


section \<open>Notions of the specification\<close>

subsection \<open>Manifest and path filter\<close>

fun count_leaf_files :: "track list \<Rightarrow> nat" where
  \<comment> \<open>the number N of leaf files of a manifest tree: the entries that are not folders\<close>
  "count_leaf_files [] = 0"
| "count_leaf_files (Track ty ti ch url sz # tracks) =
     (if ty = ''folder'' then count_leaf_files ch else 1) + count_leaf_files tracks"

definition clean_segment :: "string \<Rightarrow> bool" where
  \<comment> \<open>a sanitized path segment: not empty, no illegal character, no dot or space at either end\<close>
  "clean_segment s = (s \<noteq> [] \<and> (\<forall>c \<in> set s. c \<notin> set illegal_chars) \<and>
      hd s \<notin> set ''. '' \<and> last s \<notin> set ''. '')"

definition path_ok :: "string \<Rightarrow> bool" where
  "path_ok p = (p = [] \<or> (\<forall>seg \<in> set (split_on CHR ''/'' p). clean_segment seg))"

definition matches_scope :: "string \<Rightarrow> string \<Rightarrow> bool" where
  \<comment> \<open>the four ways in which a full relative path \<open>p\<close> matches a normalized scope \<open>t\<close>: the
      scope is empty, the path is the scope, the path is nested under the scope, or the
      directory that holds the file is the scope\<close>
  "matches_scope p t = (t = [] \<or> p = t \<or> prefix (t @ ''/'') p \<or>
      (\<exists>name. CHR ''/'' \<notin> set name \<and> p = t @ ''/'' @ name))"

definition example_tracks :: "track list" where
  "example_tracks =
     [Track ''folder'' (Some ''A:'')
        [Track ''audio'' (Some '' x?.mp3 '') [] ''u1'' 3,
         Track ''folder'' (Some ''..'') [Track ''audio'' (Some ''. .'') [] [] 0] [] 0] [] 0,
      Track ''text'' None [] ''u3'' 7]"

subsection \<open>ETA estimation\<close>

definition has_previous_eta :: "ProgressManager \<Rightarrow> bool" where
  \<comment> \<open>\<open>hasattr(self, '_last_eta_seconds') and self._last_eta_seconds > 0\<close>\<close>
  "has_previous_eta pm = (case last_eta_seconds pm of None \<Rightarrow> False | Some l \<Rightarrow> l > 0)"

definition sample_key :: "sample \<Rightarrow> real \<times> int \<times> int" where
  \<comment> \<open>a sample as the specification writes it: (t, downloaded_bytes, total_bytes)\<close>
  "sample_key s = (s_time s, s_downloaded_bytes s, s_total_bytes s)"

definition example_args :: "real \<Rightarrow> int \<Rightarrow> download_progress_args" where
  "example_args p b =
     \<lparr> a_task_id = ''job'', a_work_info = [], a_progress_percent = p, a_download_speed = 0,
       a_completed_files = 0, a_total_files = 1, a_current_file = ''a.mp3'',
       a_completed_files_list = [], a_downloaded_bytes = b, a_total_bytes = 1000 \<rparr>"

definition example_config :: ASMRConfig where
  "example_config = \<lparr> username = ''u'', password = ''p'', download_path = ''/d'',
     api_channel = None, progress_update_interval = default_progress_update_interval \<rparr>"

definition example_pm :: ProgressManager where
  \<comment> \<open>a manager after \<open>update_starting\<close> at time 0 and one update at time 0 with no byte
      downloaded, at the moment its second update, at time 10 with 500 of 1000 bytes, has
      recorded its sample\<close>
  "example_pm =
     record_sample
       (fst (update_download_progress
               (fst (update_starting (ProgressManager_init example_config) 0 ''job'' ''RJ1''))
               0 (example_args 0 0)))
       10 (example_args 50 500)"

subsection \<open>Throttle of the Downloading state\<close>









subsection \<open>Acknowledgement of the dispatchers\<close>

definition claimed_token :: "string \<Rightarrow> string \<Rightarrow> string" where
  \<comment> \<open>the placeholder token in the words of the claim\<close>
  "claimed_token plugin task_id = ''{{ASYNC_RESULT::'' @ plugin @ ''::'' @ task_id @ ''}}''"

definition result_string :: "json \<Rightarrow> string option" where
  \<comment> \<open>the \<open>result\<close> of a response, when it is a string\<close>
  "result_string j =
     (case j of
        JObject kvs \<Rightarrow> (case map_of kvs ''result'' of Some (JString s) \<Rightarrow> Some s | _ \<Rightarrow> None)
      | _ \<Rightarrow> None)"

definition claimed_ack :: "string \<Rightarrow> string \<Rightarrow> json \<Rightarrow> bool" where
  \<comment> \<open>the acknowledgement in the words of the claim: status \<open>success\<close> and a result string
      that contains the token\<close>
  "claimed_ack plugin task_id j =
     (case j of
        JObject kvs \<Rightarrow>
          map_of kvs ''status'' = Some (JString ''success'') \<and>
          (case result_string j of
             Some s \<Rightarrow> sublist (claimed_token plugin task_id) s
           | None \<Rightarrow> False)
      | _ \<Rightarrow> False)"

definition example_request :: request_data where
  "example_request = \<lparr> rq_work_id = ''RJ123456'', rq_target_path = [] \<rparr>"

definition example_task_id :: string where
  "example_task_id = ''3f2b8c1e-5d4a-4e6f-9a7b-1c2d3e4f5a6b''"

subsection \<open>Size lookup\<close>




definition example_dups :: "track list" where
  "example_dups =
     [Track ''folder'' (Some ''A'') [Track ''audio'' (Some ''x.mp3'') [] ''u1'' 4] [] 0,
      Track ''folder'' (Some ''B'') [Track ''audio'' (Some ''x.mp3'') [] ''u2'' 5] [] 0]"

definition is_settled :: "progress_info \<Rightarrow> bool" where
  \<comment> \<open>\<open>progress_info.get("status") in ["complete", "skipped"]\<close>\<close>
  "is_settled ev = (p_status ev = ''complete'' \<or> p_status ev = ''skipped'')"

subsection \<open>Re-running a job\<close>

definition io_frame :: "callback \<Rightarrow> bool" where
  \<comment> \<open>a callback that leaves the download tree, the network log and the list of emitted
      events alone, as \<open>progress_callback\<close> does\<close>
  "io_frame cb =
     (case cb of
        None \<Rightarrow> True
      | Some f \<Rightarrow> \<forall>ev s. disk (f ev s) = disk s \<and> requests (f ev s) = requests s \<and>
                           transferred (f ev s) = transferred s \<and> emitted (f ev s) = emitted s)"

definition new_events :: "jstate \<Rightarrow> jstate \<Rightarrow> progress_info list" where
  \<comment> \<open>the events emitted between two states\<close>
  "new_events st st' = drop (length (emitted st)) (emitted st')"

definition skipped_event :: "jstate \<Rightarrow> string \<Rightarrow> file_info \<Rightarrow> progress_info" where
  "skipped_event st download_dir file_info =
     \<lparr> p_filename = fi_filename file_info, p_status = ''skipped'',
       p_completed_length = st_size st (full_file_path_of download_dir file_info),
       p_total_length = st_size st (full_file_path_of download_dir file_info),
       p_download_speed = 0, p_progress_percent = 100 \<rparr>"

definition example_work :: work_info where
  "example_work = [(''source_id'', ''RJ1''), (''title'', ''Title'')]"

definition example_world :: world where
  "example_world =
     \<lparr> w_clock = (\<lambda>n. real n), w_write_ok = (\<lambda>n. True), w_pm_init = Returns (),
       w_config = example_config, w_ensure_download_path = Returns (),
       w_login = Returns (200, Returns ()), w_work = Returns (200, Returns example_work),
       w_tracks = Returns (200, Returns example_dups),
       w_fetch = (\<lambda>url. Response 200 4 [4] False) \<rparr>"

definition example_ctx :: cb_context where
  "example_ctx = \<lparr> c_task_id = ''job'', c_work_info = example_work, c_total_files = 2,
                    c_total_bytes = 8, c_file_sizes = [''x.mp3'' \<mapsto> 4] \<rparr>"

definition example_disk :: "string \<rightharpoonup> int" where
  \<comment> \<open>a download tree in which the two files of \<open>example_dups\<close> exist\<close>
  "example_disk = [''/d/asmr/RJ1 - Title/A/x.mp3'' \<mapsto> 4, ''/d/asmr/RJ1 - Title/B/x.mp3'' \<mapsto> 5]"

definition example_nourl :: "track list" where
  \<comment> \<open>a manifest with one file that has no download url\<close>
  "example_nourl = [Track ''audio'' (Some ''a.mp3'') [] [] 10]"

definition example_disk_nourl :: "string \<rightharpoonup> int" where
  "example_disk_nourl = [''/d/asmr/RJ1 - Title/a.mp3'' \<mapsto> 10]"

subsection \<open>Steps of a download\<close>

definition io_changed :: "jstate \<Rightarrow> jstate \<Rightarrow> bool" where
  \<comment> \<open>the second state is the first but for the clock, the download tree and the network log\<close>
  "io_changed s s' = (\<exists>tk d rq tr. s' = s\<lparr>ticks := tk, disk := d, requests := rq, transferred := tr\<rparr>)"

subsection \<open>Snapshots written while downloading\<close>

definition snapshot_of :: "world \<Rightarrow> call \<Rightarrow> jstate \<Rightarrow> progress_data" where
  \<comment> \<open>the object that \<open>update_progress\<close> writes for a call made in a state\<close>
  "snapshot_of w c st =
     \<lparr> requestId = fst c, status = fst (snd c), pluginName = ''ASMRTools'',
       timestamp = w_clock w (ticks st), kw = snd (snd c) \<rparr>"

definition downloading_writes :: "string \<Rightarrow> jstate \<Rightarrow> jstate \<Rightarrow> bool" where
  \<comment> \<open>between the two states only Downloading snapshots of the job were written, and a
      progress manager that was there still is\<close>
  "downloading_writes tid st st' =
     ((\<exists>ws. written st' = written st @ ws \<and>
            (\<forall>d \<in> set ws. status d = ''Downloading'' \<and> requestId d = tid)) \<and>
      (progress_manager st \<noteq> None \<longrightarrow> progress_manager st' \<noteq> None))"

subsection \<open>Events that settle a file\<close>

definition unsettled_events :: "jstate \<Rightarrow> jstate \<Rightarrow> bool" where
  \<comment> \<open>between the two states only events that settle no file were emitted\<close>
  "unsettled_events st st' =
     (\<exists>evs. emitted st' = emitted st @ evs \<and> filter is_settled evs = [])"

subsection \<open>The job and its outcome\<close>

definition is_terminal :: "progress_data \<Rightarrow> bool" where
  \<comment> \<open>a terminal snapshot, with the status strings of the code\<close>
  "is_terminal d = (status d = ''Succeed'' \<or> status d = ''Failed'')"

definition claimed_terminal :: "progress_data \<Rightarrow> bool" where
  \<comment> \<open>a terminal snapshot, with the status strings of the claim\<close>
  "claimed_terminal d = (status d = ''Succeeded'' \<or> status d = ''Failed'')"

definition settled_count :: "jstate \<Rightarrow> jstate \<Rightarrow> int" where
  \<comment> \<open>the number of files that completed or were skipped between two states, as the
      callback was told\<close>
  "settled_count st st' = int (length (filter is_settled (new_events st st')))"

definition job_inputs :: "world \<Rightarrow> (work_info \<times> track list) option" where
  \<comment> \<open>the work and its tracks, when the configuration is valid and every request before the
      downloads succeeds\<close>
  "job_inputs w =
     (if validate (w_config w) \<and> w_ensure_download_path w = Returns () then
        (case (w_login w, w_work w, w_tracks w) of
           (Returns (lc, Returns _), Returns (wc, Returns wi), Returns (tc, Returns tr)) \<Rightarrow>
             if lc = 200 \<and> wc = 200 \<and> tc = 200 then Some (wi, tr) else None
         | _ \<Rightarrow> None)
      else None)"

definition final_call :: "string \<Rightarrow> work_info \<Rightarrow> download_result \<Rightarrow> call" where
  \<comment> \<open>lines 332 to 367: the terminal update after the downloads\<close>
  "final_call tid wi dr =
     (if r_success_count dr > 0 then update_success tid wi dr
      else update_failed tid ''All downloads failed'' (Some wi))"

definition final_result :: "string \<Rightarrow> download_result \<Rightarrow> job_result" where
  "final_result tid dr =
     (if r_success_count dr > 0 then success_result tid dr
      else (failed_result tid ''All downloads failed'')\<lparr>j_failedFiles := Some (r_failed_downloads dr)\<rparr>)"

subsection \<open>Outcome of a job\<close>

definition job_outcome ::
  "world \<Rightarrow> string \<Rightarrow> jstate \<Rightarrow> job_result \<Rightarrow> call \<Rightarrow> jstate \<Rightarrow> progress_info list \<Rightarrow> bool" where
  \<comment> \<open>what a job leaves behind just before its terminal update: the result \<open>res\<close>, the
      terminal call \<open>c\<close>, the state \<open>st3\<close> in which it is made and the events \<open>evs\<close> emitted\<close>
  "job_outcome w tp st res c st3 evs =
     (fst (snd c) = j_status res \<and>
      (j_status res = ''Succeed'' \<or> j_status res = ''Failed'') \<and>
      emitted st3 = emitted st @ evs \<and>
      (j_status res = ''Succeed'') = (filter is_settled evs \<noteq> []) \<and>
      (j_status res = ''Succeed'' \<longrightarrow>
         j_successCount res = Some (int (length (filter is_settled evs))) \<and>
         (\<exists>fl. j_failedFiles res = Some fl \<and> j_failedCount res = Some (int (length fl)) \<and>
               j_totalTracks res = Some (int (length (filter is_settled evs)) + int (length fl)) \<and>
               failedFilesList (snd (snd c)) = Some fl)) \<and>
      (\<forall>wi tracks. job_inputs w = Some (wi, tracks) \<longrightarrow>
         (\<exists>fl. j_failedFiles res = Some fl \<and>
               int (length (filter is_settled evs)) + int (length fl)
                 = int (length (selected_files tracks tp)))))"
section \<open>Verification\<close>

subsection \<open>Strings\<close>

lemma strip_chars_subset: "set (strip_chars cs s) \<subseteq> set s"
  unfolding strip_chars_def
  by (metis (no_types, lifting) set_dropWhileD set_rev subsetI)

lemma strip_chars_hd: "strip_chars cs s \<noteq> [] \<Longrightarrow> hd (strip_chars cs s) \<notin> set cs"
proof -
  assume ne: "strip_chars cs s \<noteq> []"
  define d where "d = dropWhile (\<lambda>c. c \<in> set cs) s"
  have st: "strip_chars cs s = rev (dropWhile (\<lambda>c. c \<in> set cs) (rev d))"
    by (simp add: strip_chars_def d_def)
  have dne: "d \<noteq> []" using ne st by auto
  hence h: "hd d \<notin> set cs" unfolding d_def using hd_dropWhile[of "\<lambda>c. c \<in> set cs" s] by blast
  obtain k where k: "rev (dropWhile (\<lambda>c. c \<in> set cs) (rev d)) = take k d"
    by (metis dropWhile_eq_drop rev_drop rev_rev_ident length_rev)
  with ne st have "take k d \<noteq> []" by simp
  hence "hd (take k d) = hd d" by (cases k; cases d) auto
  thus ?thesis using h k st by simp
qed

lemma strip_chars_last: "strip_chars cs s \<noteq> [] \<Longrightarrow> last (strip_chars cs s) \<notin> set cs"
  unfolding strip_chars_def
  by (metis (no_types, lifting) hd_dropWhile last_rev rev_is_Nil_conv)

lemma split_on_nonempty: "split_on c s \<noteq> []"
  by (induction s) (auto split: list.splits)

lemma split_on_notin: "c \<notin> set s \<Longrightarrow> split_on c s = [s]"
  by (induction s) auto

lemma split_on_append: "split_on c (a @ c # b) = split_on c a @ split_on c b"
proof (induction a)
  case Nil
  show ?case by simp
next
  case (Cons x a)
  obtain w ws where ws: "split_on c a = w # ws"
    using split_on_nonempty[of c a] by (cases "split_on c a") auto
  show ?case using Cons ws by simp
qed

lemma join_with_Cons: "join_with sep ((x # w) # ws) = x # join_with sep (w # ws)"
  by (cases ws) auto

lemma join_split_on: "join_with [c] (split_on c s) = s"
proof (induction s)
  case Nil
  show ?case by simp
next
  case (Cons x xs)
  obtain w ws where ws: "split_on c xs = w # ws"
    using split_on_nonempty[of c xs] by (cases "split_on c xs") auto
  show ?case using Cons ws by (simp add: join_with_Cons)
qed

lemma parent_dir_of:
  assumes "c \<notin> set name"
  shows "join_with [c] (butlast (split_on c (d @ c # name))) = d"
  by (simp add: split_on_append split_on_notin[OF assms] butlast_append split_on_nonempty join_split_on)

lemma startswith_prefix: "startswith s p \<longleftrightarrow> prefix p s"
  unfolding startswith_def by (metis prefix_def append_eq_conv_conj take_is_prefix)

lemma strip_chars_idem: "strip_chars cs (strip_chars cs s) = strip_chars cs s"
proof -
  define P where "P = (\<lambda>c. c \<in> set cs)"
  define r where "r = dropWhile P (rev (dropWhile P s))"
  have a: "dropWhile P (rev r) = rev r"
  proof (cases "rev r")
    case Nil then show ?thesis by simp
  next
    case (Cons y ys)
    have "strip_chars cs s = rev r" by (simp add: strip_chars_def r_def P_def)
    moreover have "strip_chars cs s \<noteq> []" using Cons calculation by simp
    ultimately have "\<not> P (hd (rev r))" using strip_chars_hd[of cs s] by (simp add: P_def)
    then show ?thesis using Cons by simp
  qed
  have b: "dropWhile P r = r" unfolding r_def by (simp add: dropWhile_idem)
  show ?thesis unfolding strip_chars_def by (fold P_def, fold r_def) (simp add: a b)
qed

lemma strip_chars_Nil: "strip_chars cs [] = []"
  by (simp add: strip_chars_def)

lemma strip_chars_id:
  assumes "p \<noteq> []" "hd p \<notin> set cs" "last p \<notin> set cs"
  shows "strip_chars cs p = p"
proof -
  have a: "dropWhile (\<lambda>c. c \<in> set cs) p = p"
    using assms(1,2) by (cases p) auto
  have b: "dropWhile (\<lambda>c. c \<in> set cs) (rev p) = rev p"
    using assms(1,3) by (cases "rev p") (auto simp: hd_rev[symmetric] simp del: hd_rev)
  show ?thesis by (simp add: strip_chars_def a b)
qed

subsection \<open>The manifest is flattened into sanitized items\<close>

lemma length_extract: "length (extract_files_from_tracks tracks base) = count_leaf_files tracks"
  by (induction tracks base rule: extract_files_from_tracks.induct) (auto simp: Let_def)

lemma sanitize_clean: "clean_segment (sanitize_filename s)"
proof -
  let ?m = "map (\<lambda>c. if c \<in> set illegal_chars then CHR ''_'' else c) s"
  have m: "\<forall>c \<in> set ?m. c \<notin> set illegal_chars"
    by (auto simp: illegal_chars_def)
  show ?thesis
  proof (cases "strip_chars ''. '' ?m = []")
    case True
    then have "sanitize_filename s = ''unnamed_file''" by (simp add: sanitize_filename_def)
    then show ?thesis by (simp add: clean_segment_def illegal_chars_def)
  next
    case False
    then have e: "sanitize_filename s = strip_chars ''. '' ?m" by (simp add: sanitize_filename_def)
    show ?thesis unfolding e clean_segment_def
      using False m strip_chars_subset[of "''. ''" ?m] strip_chars_hd[OF False] strip_chars_last[OF False]
      by blast
  qed
qed

lemma clean_segment_no_slash: "clean_segment s \<Longrightarrow> CHR ''/'' \<notin> set s"
  by (auto simp: clean_segment_def illegal_chars_def)

lemma path_ok_extend:
  assumes "path_ok p" "clean_segment s"
  shows "path_ok (if p \<noteq> [] then p @ ''/'' @ s else s)"
proof (cases "p = []")
  case True
  then show ?thesis using assms(2) clean_segment_no_slash[OF assms(2)]
    by (simp add: path_ok_def split_on_notin)
next
  case False
  then have "split_on CHR ''/'' (p @ ''/'' @ s) = split_on CHR ''/'' p @ [s]"
    using split_on_append[of "CHR ''/''" p s] clean_segment_no_slash[OF assms(2)]
    by (simp add: split_on_notin)
  then show ?thesis using False assms by (auto simp: path_ok_def)
qed

lemma extract_items_clean:
  "path_ok base \<Longrightarrow> f \<in> set (extract_files_from_tracks tracks base) \<Longrightarrow>
     path_ok (fi_path f) \<and> clean_segment (fi_filename f) \<and>
     fi_filename f = sanitize_filename (fi_title f)"
proof (induction tracks base rule: extract_files_from_tracks.induct)
  case (1 base_path)
  then show ?case by simp
next
  case (2 ty ti ch url sz tracks base_path)
  show ?case
  proof (cases "ty = ''folder''")
    case True
    let ?t = "case ti of None \<Rightarrow> ''Unknown Folder'' | Some t \<Rightarrow> t"
    let ?fp = "if base_path \<noteq> [] then base_path @ ''/'' @ sanitize_filename ?t else sanitize_filename ?t"
    have ok: "path_ok ?fp" using path_ok_extend[OF "2.prems"(1) sanitize_clean] .
    from "2.prems"(2) True
    have "f \<in> set (extract_files_from_tracks ch ?fp) \<or> f \<in> set (extract_files_from_tracks tracks base_path)"
      by (simp add: Let_def)
    then show ?thesis
    proof
      assume "f \<in> set (extract_files_from_tracks ch ?fp)"
      then show ?thesis using "2.IH"(1)[OF True refl refl ok] by blast
    next
      assume "f \<in> set (extract_files_from_tracks tracks base_path)"
      then show ?thesis using "2.IH"(2)[OF True refl refl "2.prems"(1)] by blast
    qed
  next
    case False
    then show ?thesis using "2.prems" "2.IH"(3)[OF False "2.prems"(1)] sanitize_clean
      by auto
  qed
qed

lemma full_path_segments:
  assumes "path_ok (fi_path f)" "clean_segment (fi_filename f)"
  shows "full_path_of f \<noteq> [] \<and> (\<forall>seg \<in> set (split_on CHR ''/'' (full_path_of f)). clean_segment seg)"
proof -
  have "path_ok (full_path_of f)"
    unfolding full_path_of_def using path_ok_extend[OF assms] by simp
  moreover have "full_path_of f \<noteq> []"
    using assms(2) by (auto simp: full_path_of_def clean_segment_def)
  ultimately show ?thesis by (simp add: path_ok_def)
qed

text \<open>
  Claim C6. For every manifest tree, \<open>_extract_files_from_tracks\<close> returns exactly as many
  items as the tree has leaf files, at any nesting depth. The file name of each item is the
  sanitized title, its relative path is not empty, and every segment of the path is
  sanitized: not empty (an empty name has become \<open>unnamed_file\<close>), free of the illegal
  characters, with no dot or space at either end.
\<close>

theorem extract_count_and_sanitized:
  "length (extract_files_from_tracks tracks []) = count_leaf_files tracks \<and>
   (\<forall>f \<in> set (extract_files_from_tracks tracks []).
      fi_filename f = sanitize_filename (fi_title f) \<and>
      full_path_of f \<noteq> [] \<and>
      (\<forall>seg \<in> set (split_on CHR ''/'' (full_path_of f)). clean_segment seg))"
proof -
  have p: "path_ok []" by (simp add: path_ok_def)
  show ?thesis
    using length_extract extract_items_clean[OF p] full_path_segments by blast
qed

theorem extract_count_and_sanitized_witness:
  "count_leaf_files example_tracks = 3 \<and>
   map full_path_of (extract_files_from_tracks example_tracks []) =
     [''A_/x_.mp3'', ''A_/unnamed_file/unnamed_file'', ''Unknown File''] \<and>
   list_all clean_segment (split_on CHR ''/'' ''A_/unnamed_file/unnamed_file'')"
proof -
  let ?f = "\<lparr> fi_title = ''. .'', fi_mediaDownloadUrl = [], fi_path = ''A_/unnamed_file'',
             fi_filename = ''unnamed_file'', fi_size = 0 \<rparr>"
  have ev: "extract_files_from_tracks example_tracks [] =
      [\<lparr> fi_title = '' x?.mp3 '', fi_mediaDownloadUrl = ''u1'', fi_path = ''A_'',
         fi_filename = ''x_.mp3'', fi_size = 3 \<rparr>,
       ?f,
       \<lparr> fi_title = ''Unknown File'', fi_mediaDownloadUrl = ''u3'', fi_path = [],
         fi_filename = ''Unknown File'', fi_size = 7 \<rparr>]"
    by (simp add: example_tracks_def sanitize_filename_def strip_chars_def illegal_chars_def)
  have "?f \<in> set (extract_files_from_tracks example_tracks [])"
    by (simp add: ev)
  with extract_count_and_sanitized[of example_tracks]
  have "\<forall>seg \<in> set (split_on CHR ''/'' (full_path_of ?f)). clean_segment seg"
    by blast
  moreover have "count_leaf_files example_tracks = 3"
    using extract_count_and_sanitized[of example_tracks] by (simp add: ev)
  ultimately show ?thesis
    by (simp add: ev full_path_of_def list_all_iff)
qed

subsection \<open>The path filter\<close>

lemma path_matches_char:
  "path_matches fp scope = matches_scope (strip_chars ''/'' fp) (strip_chars ''/'' scope)"
proof -
  define p where "p = strip_chars ''/'' fp"
  define t where "t = strip_chars ''/'' scope"
  have dir: "(if CHR ''/'' \<in> set p then join_with ''/'' (butlast (split_on CHR ''/'' p)) else []) = t
        \<longleftrightarrow> (\<exists>name. CHR ''/'' \<notin> set name \<and> p = t @ ''/'' @ name)" if "t \<noteq> []"
  proof (cases "CHR ''/'' \<in> set p")
    case True
    then obtain d name where dn: "p = d @ CHR ''/'' # name" "CHR ''/'' \<notin> set name"
      using split_list_last[OF True] by blast
    have "join_with ''/'' (butlast (split_on CHR ''/'' p)) = d"
      unfolding dn(1) using parent_dir_of[OF dn(2), of d] by simp
    moreover have "(\<exists>name'. CHR ''/'' \<notin> set name' \<and> p = t @ ''/'' @ name') \<longleftrightarrow> d = t"
    proof
      assume "\<exists>name'. CHR ''/'' \<notin> set name' \<and> p = t @ ''/'' @ name'"
      then obtain name' where n: "CHR ''/'' \<notin> set name'" "p = t @ CHR ''/'' # name'" by auto
      have "join_with ''/'' (butlast (split_on CHR ''/'' p)) = t"
        unfolding n(2) using parent_dir_of[OF n(1), of t] by simp
      with calculation show "d = t" by simp
    next
      assume "d = t" then show "\<exists>name'. CHR ''/'' \<notin> set name' \<and> p = t @ ''/'' @ name'"
        using dn by auto
    qed
    ultimately show ?thesis using True by simp
  next
    case False
    then show ?thesis using that by auto
  qed
  show ?thesis
    unfolding path_matches_def matches_scope_def Let_def p_def[symmetric] t_def[symmetric]
    using dir by (auto simp: startswith_prefix)
qed

lemma clean_path_no_outer_slash:
  assumes ne: "p \<noteq> []" and cl: "\<forall>seg \<in> set (split_on CHR ''/'' p). clean_segment seg"
  shows "strip_chars ''/'' p = p"
proof -
  have nil: "[] \<notin> set (split_on CHR ''/'' p)"
    using cl by (auto simp: clean_segment_def)
  have h: "hd p \<noteq> CHR ''/''"
  proof
    assume "hd p = CHR ''/''"
    then obtain xs where "p = CHR ''/'' # xs" using ne by (cases p) auto
    then show False using nil by simp
  qed
  have l: "last p \<noteq> CHR ''/''"
  proof
    assume "last p = CHR ''/''"
    then obtain xs where "p = xs @ [CHR ''/'']" using ne by (metis append_butlast_last_id)
    then have "split_on CHR ''/'' p = split_on CHR ''/'' xs @ [[]]"
      using split_on_append[of "CHR ''/''" xs "[]"] by simp
    then show False using nil by simp
  qed
  show ?thesis using strip_chars_id[OF ne] h l by simp
qed

lemma extract_no_outer_slash:
  "\<forall>f \<in> set (extract_files_from_tracks tracks []). strip_chars ''/'' (full_path_of f) = full_path_of f"
  using extract_count_and_sanitized[of tracks] clean_path_no_outer_slash by blast

text \<open>
  Claim C5. For every list of items and every scope, \<open>_filter_files_by_path\<close> keeps, in
  order, exactly the items whose full relative path matches the scope with its surrounding
  slashes stripped: the path equals it, or is nested under it, or the directory holding the
  file is it; an empty scope keeps every item. The items are those of a manifest: their full
  paths have no slash at either end (\<open>extract_no_outer_slash\<close>), which the code strips
  before comparing.
\<close>

theorem filter_files_by_path_spec:
  "filter_files_by_path items [] = items \<and>
   ((\<forall>f \<in> set items. strip_chars ''/'' (full_path_of f) = full_path_of f) \<longrightarrow>
      filter_files_by_path items scope =
        filter (\<lambda>f. matches_scope (full_path_of f) (strip_chars ''/'' scope)) items)"
proof (intro conjI impI)
  show "filter_files_by_path items [] = items"
    by (simp add: filter_files_by_path_def path_matches_char strip_chars_Nil matches_scope_def)
next
  assume wf: "\<forall>f \<in> set items. strip_chars ''/'' (full_path_of f) = full_path_of f"
  have "filter_files_by_path items scope =
      filter (\<lambda>f. matches_scope (strip_chars ''/'' (full_path_of f)) (strip_chars ''/'' scope)) items"
    by (simp add: filter_files_by_path_def path_matches_char strip_chars_idem)
  also have "\<dots> = filter (\<lambda>f. matches_scope (full_path_of f) (strip_chars ''/'' scope)) items"
    using wf by (intro filter_cong) auto
  finally show "filter_files_by_path items scope =
      filter (\<lambda>f. matches_scope (full_path_of f) (strip_chars ''/'' scope)) items" .
qed

theorem filter_files_by_path_spec_witness:
  "list_all (\<lambda>f. strip_chars ''/'' (full_path_of f) = full_path_of f)
      (extract_files_from_tracks example_tracks []) \<and>
   map full_path_of (filter_files_by_path (extract_files_from_tracks example_tracks []) ''/A_/'') =
     [''A_/x_.mp3'', ''A_/unnamed_file/unnamed_file''] \<and>
   filter_files_by_path (extract_files_from_tracks example_tracks []) ''/A_/'' =
     filter (\<lambda>f. matches_scope (full_path_of f) ''A_'')
       (extract_files_from_tracks example_tracks [])"
proof -
  have h: "\<forall>f \<in> set (extract_files_from_tracks example_tracks []).
      strip_chars ''/'' (full_path_of f) = full_path_of f"
    by (simp add: example_tracks_def sanitize_filename_def strip_chars_def illegal_chars_def
          full_path_of_def)
  have s: "strip_chars ''/'' ''/A_/'' = ''A_''"
    by (simp add: strip_chars_def)
  have e: "map full_path_of (filter_files_by_path (extract_files_from_tracks example_tracks []) ''/A_/'') =
     [''A_/x_.mp3'', ''A_/unnamed_file/unnamed_file'']"
    by (simp add: example_tracks_def sanitize_filename_def strip_chars_def illegal_chars_def
          full_path_of_def filter_files_by_path_def path_matches_def startswith_def)
  show ?thesis
    using h e s filter_files_by_path_spec[of "extract_files_from_tracks example_tracks []" "''/A_/''"]
    by (simp add: list_all_iff)
qed

subsection \<open>The ETA of the two-sample history\<close>

lemma format_eta_10: "format_eta 10 = ''00:10''"
  by (simp add: format_eta_def fmt_02d_def str_int_def nat_digits.simps digit_char_def)

lemma smooth_eta_none: "\<not> has_previous_eta pm \<Longrightarrow> smooth_eta (last_eta_seconds pm) e = e"
  by (auto simp: has_previous_eta_def smooth_eta_def split: option.splits)

text \<open>
  Claim C8. With the history \<open>[(t=0, b=0, tot=1000), (t=10, b=500, tot=1000)]\<close> and a
  current progress strictly between 0 and 100, \<open>_calculate_eta\<close> computes a byte rate of
  50 bytes per second and an ETA of 10 seconds, and returns \<open>00:10\<close>. No earlier ETA exists
  at that moment: a history of two samples is the second update of a job, and the first
  update returns before it stores an ETA.
\<close>

theorem eta_of_two_samples:
  assumes p: "0 < p" "p < 100"
    and h: "map sample_key (progress_history pm) = [(0, 0, 1000), (10, 500, 1000)]"
    and n: "\<not> has_previous_eta pm"
  shows "byte_rate (recent_samples (progress_history pm)) = 50 \<and>
         calculate_eta pm p t = (''00:10'', pm\<lparr>last_eta_seconds := Some 10\<rparr>)"
proof -
  from h obtain s0 s1 where hist: "progress_history pm = [s0, s1]"
    and s0: "sample_key s0 = (0, 0, 1000)" and s1: "sample_key s1 = (10, 500, 1000)"
    by (cases "progress_history pm"; cases "tl (progress_history pm)") auto
  have rec: "recent_samples [s0, s1] = [s0, s1]"
    by (simp add: recent_samples_def)
  have v: "s_time s0 = 0" "s_downloaded_bytes s0 = 0" "s_time s1 = 10"
      "s_downloaded_bytes s1 = 500" "s_total_bytes s1 = 1000"
    using s0 s1 by (simp_all add: sample_key_def)
  have rate: "byte_rate [s0, s1] = 50"
    by (simp add: byte_rate_def v)
  have eta: "py_int 10 = 10"
    by (simp add: py_int_def)
  show ?thesis
    using p by (simp add: calculate_eta_def hist rec rate v eta smooth_eta_none[OF n] format_eta_10 Let_def)
qed

theorem eta_of_two_samples_witness:
  "map sample_key (progress_history example_pm) = [(0, 0, 1000), (10, 500, 1000)] \<and>
   \<not> has_previous_eta example_pm \<and>
   byte_rate (recent_samples (progress_history example_pm)) = 50 \<and>
   fst (calculate_eta example_pm 50 10) = ''00:10'' \<and>
   last_eta_seconds (snd (calculate_eta example_pm 50 10)) = Some 10"
proof -
  have pm: "example_pm =
     \<lparr> update_interval = 30, last_update_time = 0, start_time = 0,
       progress_history =
         [\<lparr> s_time = 0, s_progress = 0, s_completed_files = 0, s_downloaded_bytes = 0,
            s_total_bytes = 1000 \<rparr>,
          \<lparr> s_time = 10, s_progress = 50, s_completed_files = 0, s_downloaded_bytes = 500,
            s_total_bytes = 1000 \<rparr>],
       completed_files_list = [], file_structure = [],
       last_progress = Some 0, last_eta_seconds = Some 0 \<rparr>"
    by (simp add: example_pm_def record_sample_def update_download_progress_def update_starting_def
     ProgressManager_init_def example_config_def example_args_def should_update_file_def
     note_progress_def calculate_eta_def Let_def default_progress_update_interval_def)
  have h: "map sample_key (progress_history example_pm) = [(0, 0, 1000), (10, 500, 1000)]"
    by (simp add: pm sample_key_def)
  have n: "\<not> has_previous_eta example_pm"
    by (simp add: pm has_previous_eta_def)
  show ?thesis
    using h n eta_of_two_samples[of 50 example_pm 10] by simp
qed

subsection \<open>The throttle of the Downloading state\<close>















subsection \<open>The acknowledgement of the dispatchers\<close>

lemma sublist_mid: "sublist x (a @ x @ b)"
  by (rule sublist_appendI)

text \<open>
  Claim C4, as the code has it. For a request that the ASMRTools dispatcher accepts (a
  non-empty work id), the first response printed is the object with \<open>status\<close>
  \<open>success\<close>, a \<open>result\<close> string and \<open>messageForAI\<close>, and the result string contains the
  token \<open>{{VCP_ASYNC_RESULT::ASMRTools::<task_id>}}\<close> with the generated task id. For a
  request that the MissAVCrawl dispatcher accepts (a non-empty url), \<open>result\<close> is an object
  with \<open>message\<close>, \<open>taskId\<close> and \<open>placeholder\<close>: the placeholder is the token
  \<open>{{VCP_ASYNC_RESULT::MissAVCrawl::<task_id>}}\<close> and the message contains it.
\<close>

theorem dispatcher_acknowledgement:
  "(rq_work_id request \<noteq> [] \<longrightarrow>
      (\<exists>s m. hd (printed (handle_async_download request task_id thread_start)) =
                JObject [(''status'', JString ''success''), (''result'', JString s),
                         (''messageForAI'', JString m)] \<and>
             sublist (placeholder ''ASMRTools'' task_id) s)) \<and>
   (url \<noteq> None \<and> url \<noteq> Some [] \<longrightarrow>
      (\<exists>m. handle_async_download_missav url title task_id =
              JObject [(''status'', JString ''success''),
                       (''result'', JObject
                          [(''message'', JString m), (''taskId'', JString task_id),
                           (''placeholder'', JString (placeholder ''MissAVCrawl'' task_id))])] \<and>
           sublist (placeholder ''MissAVCrawl'' task_id) m))"
proof (intro conjI impI)
  assume w: "rq_work_id request \<noteq> []"
  let ?s = "(ack_submitted @ task_id @ ack_work_id @ rq_work_id request @ ack_scope
       @ (if rq_target_path request = [] then scope_all else scope_path @ rq_target_path request)
       @ ack_quality_and_wait) @ placeholder ''ASMRTools'' task_id @ []"
  have "hd (printed (handle_async_download request task_id thread_start)) =
      JObject [(''status'', JString ''success''), (''result'', JString ?s),
               (''messageForAI'', JString (msg_ai_1 @ task_id @ msg_ai_2))]"
    using w by (cases thread_start) (simp_all add: handle_async_download_def Let_def)
  moreover have "sublist (placeholder ''ASMRTools'' task_id) ?s"
    by (rule sublist_mid)
  ultimately show "\<exists>s m. hd (printed (handle_async_download request task_id thread_start)) =
                JObject [(''status'', JString ''success''), (''result'', JString s),
                         (''messageForAI'', JString m)] \<and>
             sublist (placeholder ''ASMRTools'' task_id) s"
    by blast
next
  assume u: "url \<noteq> None \<and> url \<noteq> Some []"
  let ?t = "case title of Returns t \<Rightarrow> t | Raises e \<Rightarrow> missav_unknown_title"
  let ?m = "(missav_msg_1 @ ?t @ missav_msg_2 @ task_id @ missav_msg_3)
              @ placeholder ''MissAVCrawl'' task_id @ missav_msg_4"
  have "handle_async_download_missav url title task_id =
      JObject [(''status'', JString ''success''),
               (''result'', JObject
                  [(''message'', JString ?m), (''taskId'', JString task_id),
                   (''placeholder'', JString (placeholder ''MissAVCrawl'' task_id))])]"
    using u by (simp add: handle_async_download_missav_def Let_def)
  moreover have "sublist (placeholder ''MissAVCrawl'' task_id) ?m"
    by (rule sublist_mid)
  ultimately show "\<exists>m. handle_async_download_missav url title task_id =
              JObject [(''status'', JString ''success''),
                       (''result'', JObject
                          [(''message'', JString m), (''taskId'', JString task_id),
                           (''placeholder'', JString (placeholder ''MissAVCrawl'' task_id))])] \<and>
           sublist (placeholder ''MissAVCrawl'' task_id) m"
    by blast
qed

theorem dispatcher_acknowledgement_witness:
  "rq_work_id example_request \<noteq> [] \<and>
   map_option (sublist (placeholder ''ASMRTools'' example_task_id))
     (result_string (hd (printed (handle_async_download example_request example_task_id (Returns ())))))
     = Some True \<and>
   result_string (handle_async_download_missav (Some ''https://missav.example/v1'') (Raises ''timeout'')
      example_task_id) = None"
proof -
  have w: "rq_work_id example_request \<noteq> []"
    by (simp add: example_request_def)
  have u: "Some ''https://missav.example/v1'' \<noteq> None \<and> Some ''https://missav.example/v1'' \<noteq> Some []"
    by simp
  from dispatcher_acknowledgement[of example_request example_task_id "Returns ()"
         "Some ''https://missav.example/v1''" "Raises ''timeout''"] w u
  obtain s m m' where
    a: "hd (printed (handle_async_download example_request example_task_id (Returns ()))) =
          JObject [(''status'', JString ''success''), (''result'', JString s),
                   (''messageForAI'', JString m)]"
    and b: "sublist (placeholder ''ASMRTools'' example_task_id) s"
    and c: "handle_async_download_missav (Some ''https://missav.example/v1'') (Raises ''timeout'')
              example_task_id =
            JObject [(''status'', JString ''success''),
                     (''result'', JObject
                        [(''message'', JString m'), (''taskId'', JString example_task_id),
                         (''placeholder'', JString (placeholder ''MissAVCrawl'' example_task_id))])]"
    by blast
  show ?thesis
    unfolding a c using w b by (simp add: result_string_def)
qed

text \<open>
  The claim as stated fails for both dispatchers: the ASMRTools result string does not
  contain \<open>{{ASYNC_RESULT::ASMRTools::<task_id>}}\<close> (the token starts with \<open>{{VCP_\<close>), and
  the MissAVCrawl result is not a string.
\<close>

theorem claimed_ack_counterexample:
  "\<not> claimed_ack ''ASMRTools'' example_task_id
       (hd (printed (handle_async_download example_request example_task_id (Returns ())))) \<and>
   \<not> claimed_ack ''MissAVCrawl'' example_task_id
       (handle_async_download_missav (Some ''https://missav.example/v1'') (Raises ''timeout'')
          example_task_id)"
proof -
  have "\<not> sublist (claimed_token ''ASMRTools'' example_task_id)
      (ack_submitted @ example_task_id @ ack_work_id @ ''RJ123456'' @ ack_scope @ scope_all
         @ ack_quality_and_wait @ placeholder ''ASMRTools'' example_task_id)"
    by (simp add: claimed_token_def ack_submitted_def ack_work_id_def ack_scope_def scope_all_def
          ack_quality_and_wait_def placeholder_def example_task_id_def sublist_Cons_right)
  then show ?thesis
    by (simp add: claimed_ack_def result_string_def handle_async_download_def
          handle_async_download_missav_def example_request_def Let_def)
qed

subsection \<open>The size lookup by bare file name\<close>




lemma time_time_cb:
  "cb_completed_files_list (snd (time_time w st)) = cb_completed_files_list st"
  "cb_downloaded_bytes (snd (time_time w st)) = cb_downloaded_bytes st"
  "cb_completed_files (snd (time_time w st)) = cb_completed_files st"
  "cb_current_file (snd (time_time w st)) = cb_current_file st"
  by (simp_all add: time_time_def)












subsection \<open>A re-run over a populated download tree\<close>

lemma update_progress_io:
  "disk (update_progress w c st) = disk st"
  "requests (update_progress w c st) = requests st"
  "transferred (update_progress w c st) = transferred st"
  "emitted (update_progress w c st) = emitted st"
  by (simp_all add: update_progress_def time_time_def Let_def split: prod.splits)

lemma report_progress_io:
  "disk (report_progress w ctx ev st) = disk st"
  "requests (report_progress w ctx ev st) = requests st"
  "transferred (report_progress w ctx ev st) = transferred st"
  "emitted (report_progress w ctx ev st) = emitted st"
  by (simp_all add: report_progress_def update_progress_io time_time_def Let_def
        split: option.splits prod.splits)

lemma count_event_io:
  "disk (count_event ctx ev st) = disk st"
  "requests (count_event ctx ev st) = requests st"
  "transferred (count_event ctx ev st) = transferred st"
  "emitted (count_event ctx ev st) = emitted st"
  by (simp_all add: count_event_def Let_def)

lemma set_current_file_io:
  "disk (set_current_file ev st) = disk st"
  "requests (set_current_file ev st) = requests st"
  "transferred (set_current_file ev st) = transferred st"
  "emitted (set_current_file ev st) = emitted st"
  by (simp_all add: set_current_file_def)

lemma progress_callback_io_frame: "io_frame (Some (progress_callback w ctx))"
  by (simp add: io_frame_def progress_callback_def report_progress_io set_current_file_io
        count_event_io)

lemma emit_io:
  assumes "io_frame cb"
  shows "disk (emit cb ev st) = disk st" "requests (emit cb ev st) = requests st"
    "transferred (emit cb ev st) = transferred st"
    "emitted (emit cb ev st) = (if cb = None then emitted st else emitted st @ [ev])"
  using assms by (auto simp: emit_def io_frame_def split: option.splits)

lemma download_single_file_skip:
  assumes "fi_mediaDownloadUrl f \<noteq> []" "exists_nonempty st (full_file_path_of dir f)"
  shows "download_single_file w cb f dir st = (True, emit cb (skipped_event st dir f) st)"
  using assms by (simp add: download_single_file_def Let_def skipped_event_def)

lemma exists_nonempty_disk: "disk st' = disk st \<Longrightarrow> exists_nonempty st' p = exists_nonempty st p"
  by (simp add: exists_nonempty_def)

lemma skipped_event_disk: "disk st' = disk st \<Longrightarrow> skipped_event st' dir f = skipped_event st dir f"
  by (simp add: skipped_event_def st_size_def)

lemma download_loop_all_skipped:
  assumes "io_frame cb"
    and "\<forall>f \<in> set files. fi_mediaDownloadUrl f \<noteq> [] \<and> exists_nonempty st (full_file_path_of dir f)"
  shows "\<exists>st'. download_loop w cb dir files (okl, failed, st) = (okl @ map fi_filename files, failed, st') \<and>
           disk st' = disk st \<and> requests st' = requests st \<and> transferred st' = transferred st \<and>
           emitted st' = emitted st @ (if cb = None then [] else map (skipped_event st dir) files)"
  using assms(2)
proof (induction files arbitrary: okl st)
  case Nil
  show ?case by simp
next
  case (Cons f files)
  let ?st1 = "emit cb (skipped_event st dir f) st"
  have one: "download_single_file w cb f dir st = (True, ?st1)"
    using Cons.prems by (simp add: download_single_file_skip)
  note e = emit_io[OF assms(1), of "skipped_event st dir f" st]
  have pre: "\<forall>g \<in> set files. fi_mediaDownloadUrl g \<noteq> [] \<and> exists_nonempty ?st1 (full_file_path_of dir g)"
    using Cons.prems by (simp add: exists_nonempty_disk[OF e(1)])
  from Cons.IH[OF pre, of "okl @ [fi_filename f]"] obtain st' where
    st': "download_loop w cb dir files (okl @ [fi_filename f], failed, ?st1)
            = ((okl @ [fi_filename f]) @ map fi_filename files, failed, st')"
      "disk st' = disk ?st1" "requests st' = requests ?st1" "transferred st' = transferred ?st1"
      "emitted st' = emitted ?st1 @ (if cb = None then [] else map (skipped_event ?st1 dir) files)"
    by blast
  have sk: "map (skipped_event ?st1 dir) files = map (skipped_event st dir) files"
    using skipped_event_disk[OF e(1)] by simp
  show ?case
    using st' e sk by (simp add: one)
qed

text \<open>
  Claim C7, as the code has it. When every item of the job has a download url and its file
  exists with non-zero size, \<open>download_tracks\<close> takes the skip path for every item: every
  item is counted as a success (\<open>success_count\<close> equals \<open>total_tracks\<close>, nothing failed), no
  request is made, no byte is received, the download tree is unchanged, and the callback,
  if there is one, receives exactly one \<open>skipped\<close> event per item, in order.
\<close>

theorem rerun_skips_every_item:
  assumes "io_frame cb"
    and "\<forall>f \<in> set (selected_files tracks target_path).
           fi_mediaDownloadUrl f \<noteq> [] \<and>
           exists_nonempty st (full_file_path_of (download_dir_of (w_config w) work_info) f)"
  shows "r_success_count (fst (download_tracks w cb tracks work_info target_path st))
           = r_total_tracks (fst (download_tracks w cb tracks work_info target_path st)) \<and>
         r_total_tracks (fst (download_tracks w cb tracks work_info target_path st))
           = int (length (selected_files tracks target_path)) \<and>
         r_failed_count (fst (download_tracks w cb tracks work_info target_path st)) = 0 \<and>
         r_completed_downloads (fst (download_tracks w cb tracks work_info target_path st))
           = map fi_filename (selected_files tracks target_path) \<and>
         requests (snd (download_tracks w cb tracks work_info target_path st)) = requests st \<and>
         transferred (snd (download_tracks w cb tracks work_info target_path st)) = transferred st \<and>
         disk (snd (download_tracks w cb tracks work_info target_path st)) = disk st \<and>
         new_events st (snd (download_tracks w cb tracks work_info target_path st))
           = (if cb = None then []
              else map (skipped_event st (download_dir_of (w_config w) work_info))
                     (selected_files tracks target_path))"
proof -
  from download_loop_all_skipped[OF assms, of w "[]" "[]"] obtain st' where
    l: "download_loop w cb (download_dir_of (w_config w) work_info)
          (selected_files tracks target_path) ([], [], st)
        = (map fi_filename (selected_files tracks target_path), [], st')"
      "disk st' = disk st" "requests st' = requests st" "transferred st' = transferred st"
      "emitted st' = emitted st @ (if cb = None then []
          else map (skipped_event st (download_dir_of (w_config w) work_info))
                 (selected_files tracks target_path))"
    by auto
  show ?thesis
    by (simp add: download_tracks_def Let_def l new_events_def)
qed

lemma example_dups_selected:
  "selected_files example_dups [] =
     [\<lparr> fi_title = ''x.mp3'', fi_mediaDownloadUrl = ''u1'', fi_path = ''A'',
        fi_filename = ''x.mp3'', fi_size = 4 \<rparr>,
      \<lparr> fi_title = ''x.mp3'', fi_mediaDownloadUrl = ''u2'', fi_path = ''B'',
        fi_filename = ''x.mp3'', fi_size = 5 \<rparr>]"
  by (simp add: selected_files_def example_dups_def sanitize_filename_def strip_chars_def
        illegal_chars_def)

lemma example_download_dir:
  "download_dir_of (w_config example_world) example_work = ''/d/asmr/RJ1 - Title''"
  by (simp add: download_dir_of_def example_world_def example_config_def example_work_def
        dict_get_def sanitize_filename_def strip_chars_def illegal_chars_def)

theorem rerun_skips_every_item_witness:
  "list_all (\<lambda>f. fi_mediaDownloadUrl f \<noteq> [] \<and>
       exists_nonempty (fresh_job Map.empty example_disk)
         (full_file_path_of (download_dir_of (w_config example_world) example_work) f))
     (selected_files example_dups []) \<and>
   r_success_count (fst (download_tracks example_world
       (Some (progress_callback example_world example_ctx)) example_dups example_work []
       (fresh_job Map.empty example_disk))) = 2 \<and>
   requests (snd (download_tracks example_world
       (Some (progress_callback example_world example_ctx)) example_dups example_work []
       (fresh_job Map.empty example_disk))) = [] \<and>
   map p_status (new_events (fresh_job Map.empty example_disk)
     (snd (download_tracks example_world
       (Some (progress_callback example_world example_ctx)) example_dups example_work []
       (fresh_job Map.empty example_disk)))) = [''skipped'', ''skipped'']"
proof -
  have h: "\<forall>f \<in> set (selected_files example_dups []).
       fi_mediaDownloadUrl f \<noteq> [] \<and>
       exists_nonempty (fresh_job Map.empty example_disk)
         (full_file_path_of (download_dir_of (w_config example_world) example_work) f)"
    unfolding example_download_dir example_dups_selected
    by (simp add: exists_nonempty_def fresh_job_def example_disk_def full_file_path_of_def)
  note th = rerun_skips_every_item[OF progress_callback_io_frame h, of example_world example_ctx]
  have r: "requests (fresh_job Map.empty example_disk) = []"
    by (simp add: fresh_job_def)
  have n: "length (selected_files example_dups []) = 2"
    by (simp add: example_dups_selected)
  define res where "res = download_tracks example_world
       (Some (progress_callback example_world example_ctx)) example_dups example_work []
       (fresh_job Map.empty example_disk)"
  have a: "r_success_count (fst res) = 2"
    using th n unfolding res_def by simp
  have b: "requests (snd res) = []"
    using th r unfolding res_def by simp
  have "new_events (fresh_job Map.empty example_disk) (snd res) =
      map (skipped_event (fresh_job Map.empty example_disk)
             (download_dir_of (w_config example_world) example_work))
        (selected_files example_dups [])"
    using th unfolding res_def by simp
  then have c: "map p_status (new_events (fresh_job Map.empty example_disk) (snd res))
      = [''skipped'', ''skipped'']"
    by (simp add: example_dups_selected skipped_event_def)
  have l: "list_all (\<lambda>f. fi_mediaDownloadUrl f \<noteq> [] \<and>
       exists_nonempty (fresh_job Map.empty example_disk)
         (full_file_path_of (download_dir_of (w_config example_world) example_work) f))
     (selected_files example_dups [])"
    using h by (simp only: list_all_iff)
  show ?thesis
    using l a b c unfolding res_def by (intro conjI)
qed

text \<open>
  The claim as stated needs no url. A manifest with one file without a download url, whose
  file exists with 10 bytes: the url is tested before the file, so the item fails.
\<close>

theorem rerun_without_url_counterexample:
  "list_all (\<lambda>f. exists_nonempty (fresh_job Map.empty example_disk_nourl)
         (full_file_path_of (download_dir_of (w_config example_world) example_work) f))
     (selected_files example_nourl []) \<and>
   r_total_tracks (fst (download_tracks example_world None example_nourl example_work []
       (fresh_job Map.empty example_disk_nourl))) = 1 \<and>
   r_success_count (fst (download_tracks example_world None example_nourl example_work []
       (fresh_job Map.empty example_disk_nourl))) = 0 \<and>
   r_failed_downloads (fst (download_tracks example_world None example_nourl example_work []
       (fresh_job Map.empty example_disk_nourl))) = [''a.mp3'']"
proof -
  have s: "selected_files example_nourl [] =
     [\<lparr> fi_title = ''a.mp3'', fi_mediaDownloadUrl = [], fi_path = [],
        fi_filename = ''a.mp3'', fi_size = 10 \<rparr>]"
    by (simp add: selected_files_def example_nourl_def sanitize_filename_def strip_chars_def
          illegal_chars_def)
  have d: "download_single_file example_world None
      \<lparr> fi_title = ''a.mp3'', fi_mediaDownloadUrl = [], fi_path = [],
        fi_filename = ''a.mp3'', fi_size = 10 \<rparr> dir st = (False, st)" for dir st
    by (simp add: download_single_file_def)
  show ?thesis
    unfolding download_tracks_def Let_def s example_download_dir
    by (simp add: d exists_nonempty_def fresh_job_def example_disk_nourl_def full_file_path_of_def)
qed

subsection \<open>Invariants of the download loop\<close>

lemma io_changed_ticks: "io_changed s (snd (time_time w s))"
  unfolding io_changed_def time_time_def
  by (rule exI[of _ "Suc (ticks s)"], rule exI[of _ "disk s"], rule exI[of _ "requests s"],
      rule exI[of _ "transferred s"]) simp

lemma io_changed_disk: "io_changed s (s\<lparr>disk := d, transferred := tr\<rparr>)"
  unfolding io_changed_def
  by (rule exI[of _ "ticks s"], rule exI[of _ d], rule exI[of _ "requests s"], rule exI[of _ tr]) simp

lemma io_changed_disk': "io_changed s (s\<lparr>disk := d\<rparr>)"
  unfolding io_changed_def
  by (rule exI[of _ "ticks s"], rule exI[of _ d], rule exI[of _ "requests s"],
      rule exI[of _ "transferred s"]) simp

lemma io_changed_requests: "io_changed s (s\<lparr>requests := rq\<rparr>)"
  unfolding io_changed_def
  by (rule exI[of _ "ticks s"], rule exI[of _ "disk s"], rule exI[of _ rq],
      rule exI[of _ "transferred s"]) simp

lemma stream_chunks_step:
  assumes "ch > 0" "time_time w (write_chunk path (n + ch) ch st) = (now, st2)"
  shows "stream_chunks w cb fn path total_size t0 (ch # rest) (n, lp, st) =
     (if cb \<noteq> None \<and> now - lp \<ge> 2.0
      then stream_chunks w cb fn path total_size t0 rest
             (n + ch, now, emit cb (active_event fn total_size t0 (n + ch) now) st2)
      else stream_chunks w cb fn path total_size t0 rest (n + ch, lp, st2))"
  using assms by (simp add: Let_def)

lemma stream_chunks_skip:
  "\<not> ch > 0 \<Longrightarrow> stream_chunks w cb fn path total_size t0 (ch # rest) acc =
     stream_chunks w cb fn path total_size t0 rest acc"
  by (cases acc) simp

lemma stream_chunks_invariant:
  assumes r: "\<And>s. Q s s" and t: "\<And>a b c. Q a b \<Longrightarrow> Q b c \<Longrightarrow> Q a c"
    and io: "\<And>s s'. io_changed s s' \<Longrightarrow> Q s s'"
    and em: "\<And>ev s. p_filename ev = fn \<Longrightarrow> p_status ev = ''active'' \<Longrightarrow> Q s (emit cb ev s)"
  shows "Q st (snd (snd (stream_chunks w cb fn path total_size t0 chs (n, lp, st))))"
proof (induction chs arbitrary: n lp st)
  case Nil
  show ?case by (simp add: r)
next
  case (Cons ch chs)
  show ?case
  proof (cases "ch > 0")
    case False
    then show ?thesis using Cons by simp
  next
    case True
    define st1 where "st1 = write_chunk path (n + ch) ch st"
    define st2 where "st2 = snd (time_time w st1)"
    define now where "now = w_clock w (ticks st1)"
    have a: "Q st st1"
      unfolding st1_def write_chunk_def by (rule io, rule io_changed_disk)
    have b: "Q st1 st2" unfolding st2_def by (rule io, rule io_changed_ticks)
    have ab: "Q st st2" using t[OF a b] .
    have tt: "time_time w st1 = (now, st2)"
      by (simp add: st2_def now_def time_time_def)
    note step = stream_chunks_step[OF True tt[unfolded st1_def], of cb fn total_size t0 chs lp]
    show ?thesis
    proof (cases "cb \<noteq> None \<and> now - lp \<ge> 2.0")
      case c: True
      have "Q st (emit cb (active_event fn total_size t0 (n + ch) now) st2)"
        using t[OF ab em[of "active_event fn total_size t0 (n + ch) now" st2]]
        by (simp add: active_event_def Let_def)
      from t[OF this Cons[where n="n + ch" and lp=now
            and st="emit cb (active_event fn total_size t0 (n + ch) now) st2"]]
      show ?thesis unfolding step if_P[OF c] .
    next
      case c: False
      from t[OF ab Cons[where n="n + ch" and lp=lp and st=st2]]
      show ?thesis unfolding step if_not_P[OF c] .
    qed
  qed
qed

lemma download_single_file_invariant:
  assumes r: "\<And>s. Q s s" and t: "\<And>a b c. Q a b \<Longrightarrow> Q b c \<Longrightarrow> Q a c"
    and io: "\<And>s s'. io_changed s s' \<Longrightarrow> Q s s'"
    and em: "\<And>ev s. p_filename ev = fi_filename f \<Longrightarrow>
               p_status ev \<in> {''active'', ''skipped'', ''complete''} \<Longrightarrow> Q s (emit cb ev s)"
  shows "Q st (snd (download_single_file w cb f dir st))"
proof (cases "fi_mediaDownloadUrl f = []")
  case True
  then show ?thesis by (simp add: download_single_file_def r)
next
  case url: False
  show ?thesis
  proof (cases "exists_nonempty st (full_file_path_of dir f)")
    case True
    then show ?thesis using url by (simp add: download_single_file_def Let_def em)
  next
    case ex: False
    define st1 where "st1 = st\<lparr>requests := requests st @ [fi_mediaDownloadUrl f]\<rparr>"
    have a: "Q st st1" unfolding st1_def by (rule io, rule io_changed_requests)
    show ?thesis
    proof (cases "w_fetch w (fi_mediaDownloadUrl f)")
      case Transport_error
      then show ?thesis using url ex a
        by (simp add: download_single_file_def Let_def st1_def)
    next
      case (Response code total_size chs broken)
      show ?thesis
      proof (cases "code = 200")
        case False
        then show ?thesis using url ex a Response
          by (simp add: download_single_file_def Let_def st1_def)
      next
        case True
        define st2 where "st2 = snd (time_time w st1)"
        define st3 where "st3 = st2\<lparr>disk := (disk st2)(full_file_path_of dir f \<mapsto> 0)\<rparr>"
        define res where "res = stream_chunks w cb (fi_filename f) (full_file_path_of dir f)
            total_size (w_clock w (ticks st1)) chs (0, 0, st3)"
        have tt: "time_time w st1 = (w_clock w (ticks st1), st2)"
          by (simp add: st2_def time_time_def)
        have b: "Q st1 st2" unfolding st2_def by (rule io, rule io_changed_ticks)
        have c: "Q st2 st3" unfolding st3_def by (rule io, rule io_changed_disk')
        have d: "Q st3 (snd (snd res))"
          unfolding res_def by (rule stream_chunks_invariant[where Q=Q, OF r t io em]) simp_all
        obtain dl lp st4 where res: "res = (dl, lp, st4)" by (cases res)
        have e: "Q st st4" using t[OF t[OF t[OF a b] c] d] by (simp add: res)
        have f: "Q st (emit cb ev st4)"
          if "p_filename ev = fi_filename f" "p_status ev = ''complete''" for ev
          using t[OF e em[of ev st4]] that by simp
        show ?thesis
          using url ex Response True e f
          by (simp add: download_single_file_def Let_def st1_def[symmetric] tt st3_def[symmetric]
                res_def[symmetric] res)
      qed
    qed
  qed
qed

lemma download_loop_invariant:
  assumes r: "\<And>s. Q s s" and t: "\<And>a b c. Q a b \<Longrightarrow> Q b c \<Longrightarrow> Q a c"
    and io: "\<And>s s'. io_changed s s' \<Longrightarrow> Q s s'"
    and em: "\<And>ev s. p_filename ev \<in> fi_filename ` set files \<Longrightarrow>
               p_status ev \<in> {''active'', ''skipped'', ''complete''} \<Longrightarrow> Q s (emit cb ev s)"
  shows "Q st (snd (snd (download_loop w cb dir files (c, fl, st))))"
  using em
proof (induction files arbitrary: c fl st)
  case Nil
  show ?case by (simp add: r)
next
  case (Cons f files)
  obtain ok st' where d: "download_single_file w cb f dir st = (ok, st')"
    by (cases "download_single_file w cb f dir st")
  have a: "Q st st'"
    using download_single_file_invariant[where Q=Q and st=st and w=w and f=f and dir=dir
            and cb=cb, OF r t io] Cons.prems d by simp
  have b: "Q st' (snd (snd (download_loop w cb dir files (c', fl', st'))))" for c' fl'
    by (rule Cons.IH) (simp add: Cons.prems)
  show ?case
    using t[OF a b] by (simp add: d)
qed

subsection \<open>Snapshots written while downloading\<close>

lemma update_progress_written:
  "written (update_progress w c st) =
     (if w_write_ok w (attempts st) then written st @ [snapshot_of w c st] else written st)"
  "results_dir (update_progress w c st) =
     (if w_write_ok w (attempts st)
      then (results_dir st)(''ASMRTools-'' @ fst c @ ''.json'' \<mapsto> snapshot_of w c st)
      else results_dir st)"
  "attempts (update_progress w c st) = Suc (attempts st)"
  "progress_manager (update_progress w c st) = progress_manager st"
  by (cases c; simp add: update_progress_def time_time_def Let_def snapshot_of_def)+

lemma update_download_progress_call:
  assumes "update_download_progress pm t a = (pm', Some c)"
  shows "fst c = a_task_id a" "fst (snd c) = ''Downloading''"
    "progress (snd (snd c)) = Some (a_progress_percent a)"
  using assms
  by (auto simp: update_download_progress_def Let_def no_kwargs_def split: prod.splits if_splits)

lemma downloading_writes_refl: "downloading_writes tid s s"
  by (simp add: downloading_writes_def)

lemma downloading_writes_trans:
  "downloading_writes tid a b \<Longrightarrow> downloading_writes tid b c \<Longrightarrow> downloading_writes tid a c"
  unfolding downloading_writes_def by (elim conjE exE) (auto intro: exI[of _ "_ @ _"])

lemma downloading_writes_io: "io_changed s s' \<Longrightarrow> downloading_writes tid s s'"
  by (auto simp: downloading_writes_def io_changed_def)

lemma report_progress_writes:
  "downloading_writes (c_task_id ctx) st (report_progress w ctx ev st)"
proof (cases "progress_manager st")
  case None
  then show ?thesis by (simp add: report_progress_def downloading_writes_def)
next
  case (Some pm)
  define st1 where "st1 = snd (time_time w st)"
  define now where "now = w_clock w (ticks st)"
  obtain pm' c where u: "update_download_progress pm now (callback_args ctx ev st) = (pm', c)"
    by (cases "update_download_progress pm now (callback_args ctx ev st)")
  have tt: "time_time w st = (now, st1)" by (simp add: st1_def now_def time_time_def)
  have w1: "written st1 = written st" by (simp add: st1_def time_time_def)
  show ?thesis
  proof (cases c)
    case None
    then show ?thesis
      using Some u w1 by (simp add: report_progress_def tt downloading_writes_def)
  next
    case (Some c')
    have "fst c' = c_task_id ctx" "fst (snd c') = ''Downloading''"
      using update_download_progress_call[OF u[unfolded Some]] by (simp_all add: callback_args_def)
    then show ?thesis
      using \<open>progress_manager st = Some pm\<close> u Some w1
      by (simp add: report_progress_def tt downloading_writes_def update_progress_written
            snapshot_of_def)
  qed
qed

lemma count_event_frame:
  "written (count_event ctx ev st) = written st"
  "progress_manager (count_event ctx ev st) = progress_manager st"
  "attempts (count_event ctx ev st) = attempts st"
  by (simp_all add: count_event_def Let_def)

lemma set_current_file_frame:
  "written (set_current_file ev st) = written st"
  "progress_manager (set_current_file ev st) = progress_manager st"
  "attempts (set_current_file ev st) = attempts st"
  by (simp_all add: set_current_file_def)

lemma emit_writes:
  "downloading_writes (c_task_id ctx) st (emit (Some (progress_callback w ctx)) ev st)"
proof -
  define s0 where "s0 = set_current_file ev (count_event ctx ev (st\<lparr>emitted := emitted st @ [ev]\<rparr>))"
  have a: "downloading_writes (c_task_id ctx) st s0"
    by (simp add: downloading_writes_def s0_def set_current_file_frame count_event_frame)
  have b: "downloading_writes (c_task_id ctx) s0 (report_progress w ctx ev s0)"
    by (rule report_progress_writes)
  show ?thesis
    using downloading_writes_trans[OF a b]
    by (simp add: emit_def progress_callback_def s0_def)
qed

lemma download_loop_writes:
  "downloading_writes (c_task_id ctx) st
     (snd (snd (download_loop w (Some (progress_callback w ctx)) dir files (c, fl, st))))"
  by (rule download_loop_invariant[where Q="downloading_writes (c_task_id ctx)"])
     (auto intro: downloading_writes_refl downloading_writes_trans downloading_writes_io emit_writes)

subsection \<open>Counting the events that settle a file\<close>

lemma unsettled_events_refl: "unsettled_events s s"
  by (simp add: unsettled_events_def)

lemma unsettled_events_trans:
  "unsettled_events a b \<Longrightarrow> unsettled_events b c \<Longrightarrow> unsettled_events a c"
  unfolding unsettled_events_def by (elim conjE exE) (auto intro: exI[of _ "_ @ _"])

lemma unsettled_events_io: "io_changed s s' \<Longrightarrow> unsettled_events s s'"
  by (auto simp: unsettled_events_def io_changed_def)

lemma unsettled_events_emit:
  "io_frame cb \<Longrightarrow> p_status ev = ''active'' \<Longrightarrow> unsettled_events s (emit cb ev s)"
  by (simp add: unsettled_events_def emit_io is_settled_def)

lemma stream_chunks_unsettled:
  assumes "io_frame cb"
  shows "unsettled_events st (snd (snd (stream_chunks w cb fn path total_size t0 chs (n, lp, st))))"
  by (rule stream_chunks_invariant[where Q=unsettled_events])
     (auto intro: unsettled_events_refl unsettled_events_trans unsettled_events_io
        unsettled_events_emit[OF assms])

lemma emit_settled_count:
  assumes "io_frame cb" "cb \<noteq> None" "is_settled ev"
  shows "\<exists>evs. emitted (emit cb ev st) = emitted st @ evs \<and> length (filter is_settled evs) = 1"
  using assms by (simp add: emit_io)

lemma download_single_file_count:
  assumes fr: "io_frame cb" and cb: "cb \<noteq> None"
    and d: "download_single_file w cb f dir st = (ok, st')"
  shows "\<exists>evs. emitted st' = emitted st @ evs \<and>
           length (filter is_settled evs) = (if ok then 1 else 0)"
proof (cases "fi_mediaDownloadUrl f = []")
  case True
  then show ?thesis using d by (auto simp: download_single_file_def)
next
  case url: False
  show ?thesis
  proof (cases "exists_nonempty st (full_file_path_of dir f)")
    case True
    then have "ok" "st' = emit cb (skipped_event st dir f) st"
      using d url by (auto simp: download_single_file_def Let_def skipped_event_def)
    then show ?thesis
      using emit_settled_count[OF fr cb, of "skipped_event st dir f" st]
      by (simp add: is_settled_def skipped_event_def)
  next
    case ex: False
    define st1 where "st1 = st\<lparr>requests := requests st @ [fi_mediaDownloadUrl f]\<rparr>"
    have e1: "emitted st1 = emitted st" by (simp add: st1_def)
    show ?thesis
    proof (cases "w_fetch w (fi_mediaDownloadUrl f)")
      case Transport_error
      then show ?thesis using url ex d e1
        by (auto simp: download_single_file_def Let_def st1_def)
    next
      case (Response code total_size chs broken)
      show ?thesis
      proof (cases "code = 200")
        case False
        then show ?thesis using url ex d e1 Response
          by (auto simp: download_single_file_def Let_def st1_def)
      next
        case True
        define st2 where "st2 = snd (time_time w st1)"
        define st3 where "st3 = st2\<lparr>disk := (disk st2)(full_file_path_of dir f \<mapsto> 0)\<rparr>"
        define res where "res = stream_chunks w cb (fi_filename f) (full_file_path_of dir f)
            total_size (w_clock w (ticks st1)) chs (0, 0, st3)"
        obtain dl lp st4 where res: "res = (dl, lp, st4)" by (cases res)
        have tt: "time_time w st1 = (w_clock w (ticks st1), st2)"
          by (simp add: st2_def time_time_def)
        have e3: "emitted st3 = emitted st"
          by (simp add: st3_def st2_def time_time_def e1)
        have "unsettled_events st3 st4"
          using stream_chunks_unsettled[OF fr, of st3 w "fi_filename f" "full_file_path_of dir f"
              total_size "w_clock w (ticks st1)" chs 0 0]
          by (simp add: res_def[symmetric] res)
        then obtain evs where evs: "emitted st4 = emitted st @ evs" "filter is_settled evs = []"
          by (auto simp: unsettled_events_def e3)
        have r: "(ok, st') = (if broken then (False, st4)
            else (True, emit cb \<lparr> p_filename = fi_filename f, p_status = ''complete'',
                     p_completed_length = dl, p_total_length = total_size,
                     p_download_speed = 0, p_progress_percent = 100 \<rparr> st4))"
          using url ex Response True d
          by (simp add: download_single_file_def Let_def st1_def[symmetric] tt st3_def[symmetric]
                res_def[symmetric] res)
        show ?thesis
        proof (cases broken)
          case True
          then show ?thesis using r evs by auto
        next
          case False
          then show ?thesis using r evs by (auto simp: emit_io[OF fr] cb is_settled_def)
        qed
      qed
    qed
  qed
qed

lemma download_loop_count:
  assumes fr: "io_frame cb" and cb: "cb \<noteq> None"
  shows "download_loop w cb dir files (c, fl, st) = (c', fl', st') \<Longrightarrow>
     (\<exists>evs. emitted st' = emitted st @ evs \<and>
            length (filter is_settled evs) + length c = length c') \<and>
     length c' + length fl' = length c + length fl + length files \<and>
     (\<exists>c2 fl2. c' = c @ c2 \<and> fl' = fl @ fl2)"
proof (induction files arbitrary: c fl st)
  case Nil
  then show ?case by simp
next
  case (Cons f files)
  obtain ok st1 where d: "download_single_file w cb f dir st = (ok, st1)"
    by (cases "download_single_file w cb f dir st")
  from download_single_file_count[OF fr cb d] obtain e1 where
    e1: "emitted st1 = emitted st @ e1" "length (filter is_settled e1) = (if ok then 1 else 0)"
    by blast
  show ?case
  proof (cases ok)
    case True
    with Cons.prems d have "download_loop w cb dir files (c @ [fi_filename f], fl, st1) = (c', fl', st')"
      by simp
    from Cons.IH[OF this] e1 True show ?thesis by auto
  next
    case False
    with Cons.prems d have "download_loop w cb dir files (c, fl @ [fi_filename f], st1) = (c', fl', st')"
      by simp
    from Cons.IH[OF this] e1 False show ?thesis by auto
  qed
qed

subsection \<open>The phases of a job\<close>

lemma start_job_facts:
  "progress_manager (start_job w tid wid st) \<noteq> None"
  "emitted (start_job w tid wid st) = emitted st"
  "attempts (start_job w tid wid st) = Suc (attempts st)"
  "\<exists>ws. written (start_job w tid wid st) = written st @ ws \<and>
     (\<forall>d \<in> set ws. status d = ''Starting'' \<and> requestId d = tid \<and> progress (kw d) = Some 0)"
  by (simp_all add: start_job_def Let_def time_time_def update_starting_def
        update_progress_written snapshot_of_def update_progress_io no_kwargs_def)

lemma prepare_facts:
  assumes "progress_manager st \<noteq> None"
  shows "progress_manager (prepare w tid wi tracks tp st) \<noteq> None"
    "emitted (prepare w tid wi tracks tp st) = emitted st"
    "\<exists>ws. written (prepare w tid wi tracks tp st) = written st @ ws \<and>
       (\<forall>d \<in> set ws. status d = ''Preparing'' \<and> requestId d = tid \<and> progress (kw d) = Some 5)"
  using assms
  by (auto simp: prepare_def Let_def update_preparing_def update_progress_written snapshot_of_def
        update_progress_io no_kwargs_def split: option.splits)

lemma job_context_task_id [simp]: "c_task_id (job_context tid wi tracks tp) = tid"
  by (simp add: job_context_def Let_def split: prod.splits)

lemma download_tracks_facts:
  assumes "download_tracks w (Some (progress_callback w ctx)) tracks wi tp st = (dr, st3)"
  shows "downloading_writes (c_task_id ctx) st st3"
    and "\<exists>evs. emitted st3 = emitted st @ evs \<and>
            int (length (filter is_settled evs)) = r_success_count dr"
    and "r_success_count dr + r_failed_count dr = r_total_tracks dr"
    and "r_total_tracks dr = int (length (selected_files tracks tp))"
    and "r_failed_count dr = int (length (r_failed_downloads dr))"
    and "r_success_count dr = int (length (r_completed_downloads dr))"
proof -
  define dir where "dir = download_dir_of (w_config w) wi"
  define files where "files = selected_files tracks tp"
  obtain c' fl' st' where l: "download_loop w (Some (progress_callback w ctx)) dir files ([], [], st)
      = (c', fl', st')"
    by (cases "download_loop w (Some (progress_callback w ctx)) dir files ([], [], st)")
  have dr: "dr = \<lparr> r_work_title = dict_get wi ''title'' ''Unknown Work'', r_download_dir = dir,
            r_total_tracks = int (length files), r_success_count = int (length c'),
            r_failed_count = int (length fl'), r_completed_downloads = c',
            r_failed_downloads = fl' \<rparr>" and st3: "st3 = st'"
    using assms l[unfolded dir_def files_def]
    by (simp_all add: download_tracks_def Let_def dir_def files_def)
  show "downloading_writes (c_task_id ctx) st st3"
    using download_loop_writes[of ctx st w dir files "[]" "[]"] by (simp add: l st3)
  note cnt = download_loop_count[OF progress_callback_io_frame _ l]
  show "\<exists>evs. emitted st3 = emitted st @ evs \<and>
            int (length (filter is_settled evs)) = r_success_count dr"
    using cnt by (auto simp: dr st3)
  show "r_success_count dr + r_failed_count dr = r_total_tracks dr"
    using cnt by (simp add: dr)
  show "r_total_tracks dr = int (length (selected_files tracks tp))"
    by (simp add: dr files_def)
  show "r_failed_count dr = int (length (r_failed_downloads dr))"
    by (simp add: dr)
  show "r_success_count dr = int (length (r_completed_downloads dr))"
    by (simp add: dr)
qed

lemma download_phase_outcome:
  assumes pm: "progress_manager st \<noteq> None"
  shows "\<exists>dr st3 pre evs.
      written st3 = written st @ pre \<and>
      (\<forall>d \<in> set pre. (status d = ''Preparing'' \<or> status d = ''Downloading'') \<and> requestId d = tid) \<and>
      progress_manager st3 \<noteq> None \<and>
      emitted st3 = emitted st @ evs \<and>
      int (length (filter is_settled evs)) = r_success_count dr \<and>
      r_success_count dr + int (length (r_failed_downloads dr)) = int (length (selected_files tracks tp)) \<and>
      r_total_tracks dr = int (length (selected_files tracks tp)) \<and>
      r_failed_count dr = int (length (r_failed_downloads dr)) \<and>
      download_phase w tid wid tp wi tracks st =
        (Inr (final_result tid dr), update_progress w (final_call tid wi dr) st3)"
proof -
  define ctx where "ctx = job_context tid wi tracks tp"
  define st2 where "st2 = prepare w tid wi tracks tp st"
  obtain dr st3 where dt: "download_tracks w (Some (progress_callback w ctx)) tracks wi tp st2 = (dr, st3)"
    by (cases "download_tracks w (Some (progress_callback w ctx)) tracks wi tp st2")
  note f = download_tracks_facts[OF dt]
  note p = prepare_facts[OF pm, of w tid wi tracks tp, folded st2_def]
  from p(3) obtain ws1 where ws1: "written st2 = written st @ ws1"
      "\<forall>d \<in> set ws1. status d = ''Preparing'' \<and> requestId d = tid \<and> progress (kw d) = Some 5"
    by blast
  from f(1) obtain ws2 where ws2: "written st3 = written st2 @ ws2"
      "\<forall>d \<in> set ws2. status d = ''Downloading'' \<and> requestId d = tid"
      and pm3: "progress_manager st3 \<noteq> None"
    using p(1) by (auto simp: downloading_writes_def ctx_def)
  from f(2) obtain evs where evs: "emitted st3 = emitted st @ evs"
      "int (length (filter is_settled evs)) = r_success_count dr"
    using p(2) by auto
  have ph: "download_phase w tid wid tp wi tracks st =
        (Inr (final_result tid dr), update_progress w (final_call tid wi dr) st3)"
    using pm3 by (auto simp: download_phase_def Let_def ctx_def[symmetric] st2_def[symmetric] dt
          final_result_def final_call_def pm_call_def)
  have w3: "written st3 = written st @ (ws1 @ ws2)" using ws1 ws2 by simp
  have all: "\<forall>d \<in> set (ws1 @ ws2). (status d = ''Preparing'' \<or> status d = ''Downloading'') \<and> requestId d = tid"
    using ws1 ws2 by auto
  show ?thesis
    using w3 all pm3 evs f(3,4,5) ph by (intro exI[of _ dr] exI[of _ st3] exI[of _ "ws1 @ ws2"] exI[of _ evs]) simp
qed

subsection \<open>The outcome of a job\<close>

lemma perform_download_body_cases:
  assumes "w_pm_init w = Returns u"
  shows "(job_inputs w = None \<and>
          ((\<exists>r wi. perform_download_body w tid wid tp st =
               (Inr (failed_result tid r), pm_call w (update_failed tid r wi) (start_job w tid wid st))) \<or>
           (\<exists>e. perform_download_body w tid wid tp st = (Inl e, start_job w tid wid st)))) \<or>
         (\<exists>wi tracks. job_inputs w = Some (wi, tracks) \<and>
            perform_download_body w tid wid tp st =
              download_phase w tid wid tp wi tracks (start_job w tid wid st))"
  using assms
  by (auto simp: perform_download_body_def job_inputs_def Let_def
        split: io.splits prod.splits if_splits)

lemma update_failed_call:
  "fst (update_failed tid r wi) = tid" "fst (snd (update_failed tid r wi)) = ''Failed''"
  by (simp_all add: update_failed_def)

lemma final_call_facts:
  "fst (final_call tid wi dr) = tid"
  "fst (snd (final_call tid wi dr)) = j_status (final_result tid dr)"
  "j_status (final_result tid dr) = (if r_success_count dr > 0 then ''Succeed'' else ''Failed'')"
  "j_failedFiles (final_result tid dr) = Some (r_failed_downloads dr)"
  "r_success_count dr > 0 \<Longrightarrow> j_successCount (final_result tid dr) = Some (r_success_count dr)"
  "r_success_count dr > 0 \<Longrightarrow> j_failedCount (final_result tid dr) = Some (r_failed_count dr)"
  "r_success_count dr > 0 \<Longrightarrow> j_totalTracks (final_result tid dr) = Some (r_total_tracks dr)"
  "r_success_count dr > 0 \<Longrightarrow>
     failedFilesList (snd (snd (final_call tid wi dr))) = Some (r_failed_downloads dr)"
  by (simp_all add: final_call_def final_result_def update_success_def update_failed_def
        success_result_def failed_result_def no_kwargs_def)

lemma perform_outcome:
  assumes "w_pm_init w = Returns u"
  shows "\<exists>res c st3 pre evs.
     perform_download_sync w tid wid tp st = (res, update_progress w c st3) \<and>
     fst c = tid \<and>
     written st3 = written st @ pre \<and> (\<forall>d \<in> set pre. \<not> is_terminal d \<and> requestId d = tid) \<and>
     job_outcome w tp st res c st3 evs"
proof -
  define st0 where "st0 = st\<lparr>progress_manager := None\<rparr>"
  define st2 where "st2 = start_job w tid wid st0"
  have pm2: "progress_manager st2 \<noteq> None" and e2: "emitted st2 = emitted st"
    by (simp_all add: st2_def start_job_facts st0_def)
  obtain ws0 where ws0: "written st2 = written st @ ws0"
      "\<forall>d \<in> set ws0. status d = ''Starting'' \<and> requestId d = tid \<and> progress (kw d) = Some 0"
    using start_job_facts(4)[of w tid wid st0] by (auto simp: st2_def st0_def)
  have nt0: "\<forall>d \<in> set ws0. \<not> is_terminal d \<and> requestId d = tid"
    using ws0(2) by (auto simp: is_terminal_def)
  have early: ?thesis
    if ji: "job_inputs w = None"
      and p: "perform_download_sync w tid wid tp st =
          (failed_result tid r, update_progress w (update_failed tid r wi) st2)" for r wi
  proof -
    have "job_outcome w tp st (failed_result tid r) (update_failed tid r wi) st2 []"
      by (simp add: job_outcome_def update_failed_call failed_result_def e2 ji)
    then show ?thesis
      using p ws0(1) nt0 update_failed_call(1)[of tid r wi] by blast
  qed
  from perform_download_body_cases[OF assms, of tid wid tp st0]
  consider (fail) r wi where "job_inputs w = None"
      "perform_download_body w tid wid tp st0 =
         (Inr (failed_result tid r), pm_call w (update_failed tid r wi) st2)"
    | (exn) e where "job_inputs w = None" "perform_download_body w tid wid tp st0 = (Inl e, st2)"
    | (dl) wi tracks where "job_inputs w = Some (wi, tracks)"
      "perform_download_body w tid wid tp st0 = download_phase w tid wid tp wi tracks st2"
    unfolding st2_def by blast
  then show ?thesis
  proof cases
    case fail
    show ?thesis
      by (rule early[OF fail(1), of r wi])
         (use fail(2) pm2 in \<open>auto simp: perform_download_sync_def st0_def[symmetric] pm_call_def\<close>)
  next
    case exn
    show ?thesis
      by (rule early[OF exn(1), of e None])
         (use exn(2) pm2 in \<open>auto simp: perform_download_sync_def st0_def[symmetric] pm_call_def\<close>)
  next
    case dl
    from download_phase_outcome[OF pm2, of tid tracks tp w wid wi] obtain dr st3 pre evs where
      o: "written st3 = written st2 @ pre"
        "\<forall>d \<in> set pre. (status d = ''Preparing'' \<or> status d = ''Downloading'') \<and> requestId d = tid"
        "emitted st3 = emitted st2 @ evs"
        "int (length (filter is_settled evs)) = r_success_count dr"
        "r_success_count dr + int (length (r_failed_downloads dr)) = int (length (selected_files tracks tp))"
        "r_total_tracks dr = int (length (selected_files tracks tp))"
        "r_failed_count dr = int (length (r_failed_downloads dr))"
        "download_phase w tid wid tp wi tracks st2 =
           (Inr (final_result tid dr), update_progress w (final_call tid wi dr) st3)"
      by blast
    have p: "perform_download_sync w tid wid tp st =
        (final_result tid dr, update_progress w (final_call tid wi dr) st3)"
      using dl(2) o(8) by (simp add: perform_download_sync_def st0_def[symmetric])
    have w3: "written st3 = written st @ (ws0 @ pre)" using ws0 o(1) by simp
    have nt: "\<forall>d \<in> set (ws0 @ pre). \<not> is_terminal d \<and> requestId d = tid"
      using nt0 o(2) by (auto simp: is_terminal_def)
    have pos: "(r_success_count dr > 0) = (filter is_settled evs \<noteq> [])"
      using o(4) by (cases "filter is_settled evs") auto
    have jo: "job_outcome w tp st (final_result tid dr) (final_call tid wi dr) st3 evs"
      unfolding job_outcome_def
      using o(3,4,5,6,7) e2 pos dl(1)
      by (auto simp: final_call_facts)
    show ?thesis
      using p w3 nt jo final_call_facts(1)[of tid wi dr] by blast
  qed
qed

end
